theory Spec2Isabelle
  imports Main "HOL-Library.Word"
begin

unbundle bit_operations_syntax

section \<open>The C library and the kernel, as far as the two programs use them\<close>

text \<open>
  The two programs, \<^verbatim>\<open>signalfd.c\<close> (the kernel signal queue strategy) and
  \<^verbatim>\<open>selfpipetrick.c\<close> (the self-pipe strategy), consist of system calls and of the
  few lines that inspect their results. A program is modelled as a state machine whose
  program counter names the system call it is about to issue. The environment supplies one
  event at a time: the answer of the kernel to the pending system call, or a \<^verbatim>\<open>SIGINT\<close>
  generated for the process. An answer the kernel cannot give in the current state (a
  \<^verbatim>\<open>poll\<close> that reports data on an empty pipe, say) is no step of the machine. One step is
  a system call and the code that runs until the next one is issued; a later section splits
  it in two, for the claims about the handler and about the number of lines printed.

  Constants are those of the Linux headers on x86-64.
\<close>

definition SIGINT :: int where "SIGINT = 2"
definition EINTR :: int where "EINTR = 4"
definition EAGAIN :: int where "EAGAIN = 11"
definition EXIT_SUCCESS :: int where "EXIT_SUCCESS = 0"
definition EXIT_FAILURE :: int where "EXIT_FAILURE = 1"
definition F_SETFD :: int where "F_SETFD = 2"
definition F_SETFL :: int where "F_SETFL = 4"
definition FD_CLOEXEC :: "32 word" where "FD_CLOEXEC = 1"
definition O_RDONLY :: "32 word" where "O_RDONLY = 0"
definition O_WRONLY :: "32 word" where "O_WRONLY = 1"
definition O_RDWR :: "32 word" where "O_RDWR = 2"
definition O_APPEND :: "32 word" where "O_APPEND = 1024"
definition O_NONBLOCK :: "32 word" where "O_NONBLOCK = 2048"
definition O_ASYNC :: "32 word" where "O_ASYNC = 8192"
definition O_DIRECT :: "32 word" where "O_DIRECT = 16384"
definition O_NOATIME :: "32 word" where "O_NOATIME = 262144"
definition SFD_NONBLOCK :: "32 word" where "SFD_NONBLOCK = O_NONBLOCK"
definition POLLIN :: "32 word" where "POLLIN = 1"
definition newline :: char where "newline = CHR 0x0A"

text \<open>The status flags that \<^verbatim>\<open>fcntl(fd, F_SETFL, arg)\<close> can change.\<close>

definition SETFL_MASK :: "32 word" where
  "SETFL_MASK = O_APPEND OR O_NONBLOCK OR O_ASYNC OR O_DIRECT OR O_NOATIME"

text \<open>\<^verbatim>\<open>sizeof(struct signalfd_siginfo)\<close>: the record is padded to 128 bytes.\<close>

definition sizeof_siginfo :: nat where "sizeof_siginfo = 128"

text \<open>The capacity of a pipe: 16 pages of 4096 bytes.\<close>

definition PIPE_CAPACITY :: int where "PIPE_CAPACITY = 65536"

text \<open>
  A process runs, has ended by \<^verbatim>\<open>exit\<close> or by returning from \<^verbatim>\<open>main\<close>, was terminated
  by a signal, or is asleep in a system call that cannot return any more.
\<close>

datatype status = Running | Exited int | Killed int | Asleep

text \<open>The answer of the kernel to a system call: a return value, or \<open>-1\<close> with an error number.\<close>

datatype sysres = Ret int | Fail int

datatype pipe_res = Pipe_ok int int | Pipe_err int

datatype syscall =
    Sys_pipe
  | Sys_fcntl int int "32 word"
  | Sys_signal int
  | Sys_sigprocmask
  | Sys_signalfd int "32 word"
  | Sys_poll int "32 word" int
  | Sys_read int nat
  | Sys_write int "8 word list"

datatype fobj = Terminal | PipeRd | PipeWr | SignalFd

text \<open>
  An open descriptor: the object behind it, its file descriptor flags (\<^verbatim>\<open>F_GETFD\<close>,
  \<^verbatim>\<open>F_SETFD\<close>) and the file status flags of its open file description
  (\<^verbatim>\<open>F_GETFL\<close>, \<^verbatim>\<open>F_SETFL\<close>). Neither program duplicates a descriptor, so the status
  flags are kept with the descriptor.
\<close>

record fdesc =
  obj :: fobj
  fd_flags :: "32 word"
  fl_flags :: "32 word"

text \<open>
  What both programs share: how the process ended (or that it runs), \<^verbatim>\<open>errno\<close>, what was
  printed to standard output (one entry for each \<^verbatim>\<open>printf\<close>) and to standard error (one
  entry for each \<^verbatim>\<open>perror\<close>: the description and the error number it reports), the
  descriptor table, and a log of the system calls issued so far with their return values.
\<close>

record proc =
  status :: status
  errno :: int
  stdout :: "string list"
  stderr :: "(string \<times> int) list"
  fdtab :: "int \<Rightarrow> fdesc option"
  syslog :: "(syscall \<times> int) list"

definition std_fds :: "int \<Rightarrow> fdesc option" where
  "std_fds = (\<lambda>fd. if fd = 0 \<or> fd = 1 \<or> fd = 2
                    then Some \<lparr>obj = Terminal, fd_flags = 0, fl_flags = O_RDWR\<rparr> else None)"

definition perror :: "string \<Rightarrow> 'a proc_scheme \<Rightarrow> 'a proc_scheme" where
  "perror desc s = s\<lparr>stderr := stderr s @ [(desc, errno s)]\<rparr>"

definition exit :: "int \<Rightarrow> 'a proc_scheme \<Rightarrow> 'a proc_scheme" where
  "exit code s = s\<lparr>status := Exited code\<rparr>"

definition printf :: "string \<Rightarrow> 'a proc_scheme \<Rightarrow> 'a proc_scheme" where
  "printf str s = s\<lparr>stdout := stdout s @ [str]\<rparr>"

definition ret_of :: "sysres \<Rightarrow> int" where
  "ret_of r = (case r of Ret n \<Rightarrow> n | Fail e \<Rightarrow> - 1)"

text \<open>Returning from a system call: the call is logged, and a failure sets \<^verbatim>\<open>errno\<close>.\<close>

definition leave :: "syscall \<Rightarrow> sysres \<Rightarrow> 'a proc_scheme \<Rightarrow> 'a proc_scheme" where
  "leave c r s =
     (case r of
        Ret n \<Rightarrow> s\<lparr>syslog := syslog s @ [(c, n)]\<rparr>
      | Fail e \<Rightarrow> s\<lparr>errno := e, syslog := syslog s @ [(c, - 1)]\<rparr>)"

definition is_obj :: "'a proc_scheme \<Rightarrow> int \<Rightarrow> fobj \<Rightarrow> bool" where
  "is_obj s fd k = (case fdtab s fd of None \<Rightarrow> False | Some d \<Rightarrow> obj d = k)"

text \<open>A descriptor is non-blocking when \<^verbatim>\<open>O_NONBLOCK\<close> is among its status flags.\<close>

definition nonblocking :: "'a proc_scheme \<Rightarrow> int \<Rightarrow> bool" where
  "nonblocking s fd =
     (case fdtab s fd of None \<Rightarrow> False | Some d \<Rightarrow> fl_flags d AND O_NONBLOCK \<noteq> 0)"

text \<open>
  \<^verbatim>\<open>fcntl\<close>: \<^verbatim>\<open>F_SETFD\<close> replaces the descriptor flags, of which \<^verbatim>\<open>FD_CLOEXEC\<close> is the only
  one; \<^verbatim>\<open>F_SETFL\<close> replaces the changeable status flags.
\<close>

definition fcntl_flags :: "int \<Rightarrow> 32 word \<Rightarrow> fdesc \<Rightarrow> fdesc" where
  "fcntl_flags cmd arg d =
     (if cmd = F_SETFD then d\<lparr>fd_flags := arg AND FD_CLOEXEC\<rparr>
      else if cmd = F_SETFL
        then d\<lparr>fl_flags := (fl_flags d AND NOT SETFL_MASK) OR (arg AND SETFL_MASK)\<rparr>
      else d)"

definition sys_fcntl ::
  "int \<Rightarrow> int \<Rightarrow> 32 word \<Rightarrow> sysres \<Rightarrow> 'a proc_scheme \<Rightarrow> int \<times> 'a proc_scheme" where
  "sys_fcntl fd cmd arg r s =
     (ret_of r,
      leave (Sys_fcntl fd cmd arg) r
        (case r of
           Fail e \<Rightarrow> s
         | Ret n \<Rightarrow>
             (case fdtab s fd of
                None \<Rightarrow> s
              | Some d \<Rightarrow> s\<lparr>fdtab := (fdtab s)(fd \<mapsto> fcntl_flags cmd arg d)\<rparr>)))"

definition fcntl_possible :: "int \<Rightarrow> sysres \<Rightarrow> 'a proc_scheme \<Rightarrow> bool" where
  "fcntl_possible fd r s = (case r of Fail e \<Rightarrow> True | Ret n \<Rightarrow> n = 0 \<and> fdtab s fd \<noteq> None)"

definition sys_poll :: "int \<Rightarrow> sysres \<Rightarrow> 'a proc_scheme \<Rightarrow> int \<times> 'a proc_scheme" where
  "sys_poll fd r s = (ret_of r, leave (Sys_poll fd POLLIN 5000) r s)"

text \<open>
  \<^verbatim>\<open>void handle_err(char *desc) { perror(desc); exit(EXIT_FAILURE); }\<close>
\<close>

definition handle_err :: "string \<Rightarrow> 'a proc_scheme \<Rightarrow> 'a proc_scheme" where
  "handle_err desc s = exit EXIT_FAILURE (perror desc s)"

section \<open>The self-pipe program\<close>

datatype sp_pc = SP_pipe | SP_fcntl0 | SP_fcntl1 | SP_signal | SP_poll | SP_read

datatype disposition = Sig_default | Sig_handler

text \<open>
  The state of \<^verbatim>\<open>selfpipetrick.c\<close>: the global \<^verbatim>\<open>pipefds\<close> (initially \<open>{0, 0}\<close>), the local
  \<^verbatim>\<open>read_fd\<close> of \<^verbatim>\<open>main\<close>, the disposition of \<^verbatim>\<open>SIGINT\<close>, and the bytes in the pipe.
\<close>

record sp_state = proc +
  sp_pc :: sp_pc
  pipefds :: "int \<times> int"
  read_fd :: int
  sigint :: disposition
  pipe_buf :: "8 word list"

text \<open>
  The events: the kernel answers \<^verbatim>\<open>pipe\<close>; it answers the pending call of \<^verbatim>\<open>main\<close>; a
  \<^verbatim>\<open>SIGINT\<close> is delivered, and where the handler runs its \<^verbatim>\<open>write\<close> is answered; a
  \<^verbatim>\<open>SIGINT\<close> is delivered and the \<^verbatim>\<open>write\<close> of the handler does not return.
\<close>

datatype sp_event = Sp_pipe pipe_res | Sp_sys sysres | Sp_sigint sysres | Sp_sigint_sleeps

definition sp_init :: sp_state where
  "sp_init =
     \<lparr>status = Running, errno = 0, stdout = [], stderr = [], fdtab = std_fds, syslog = [],
      sp_pc = SP_pipe, pipefds = (0, 0), read_fd = 0, sigint = Sig_default, pipe_buf = []\<rparr>"

subsection \<open>The kernel's side of the pipe\<close>

definition sys_pipe :: "pipe_res \<Rightarrow> sp_state \<Rightarrow> int \<times> sp_state" where
  "sys_pipe pr s =
     (case pr of
        Pipe_ok r w \<Rightarrow>
          (0, leave Sys_pipe (Ret 0)
                (s\<lparr>fdtab := (fdtab s)
                       (r \<mapsto> \<lparr>obj = PipeRd, fd_flags = 0, fl_flags = O_RDONLY\<rparr>,
                        w \<mapsto> \<lparr>obj = PipeWr, fd_flags = 0, fl_flags = O_WRONLY\<rparr>),
                   pipefds := (r, w)\<rparr>))
      | Pipe_err e \<Rightarrow> (- 1, leave Sys_pipe (Fail e) s))"

definition pipe_possible :: "pipe_res \<Rightarrow> sp_state \<Rightarrow> bool" where
  "pipe_possible pr s =
     (case pr of
        Pipe_ok r w \<Rightarrow> 0 \<le> r \<and> 0 \<le> w \<and> r \<noteq> w \<and> fdtab s r = None \<and> fdtab s w = None
      | Pipe_err e \<Rightarrow> True)"

definition sys_signal :: "int \<Rightarrow> disposition \<Rightarrow> sysres \<Rightarrow> sp_state \<Rightarrow> sp_state" where
  "sys_signal signum h r s =
     leave (Sys_signal signum) r (case r of Ret n \<Rightarrow> s\<lparr>sigint := h\<rparr> | Fail e \<Rightarrow> s)"

definition signal_possible :: "sysres \<Rightarrow> bool" where
  "signal_possible r = (case r of Ret n \<Rightarrow> n = 0 | Fail e \<Rightarrow> True)"

definition pipe_readable :: "sp_state \<Rightarrow> int \<Rightarrow> bool" where
  "pipe_readable s fd = (is_obj s fd PipeRd \<and> pipe_buf s \<noteq> [])"

definition poll_possible_sp :: "int \<Rightarrow> sysres \<Rightarrow> sp_state \<Rightarrow> bool" where
  "poll_possible_sp fd r s =
     (case r of Ret n \<Rightarrow> n = (if pipe_readable s fd then 1 else 0) | Fail e \<Rightarrow> True)"

definition sys_read_pipe :: "int \<Rightarrow> nat \<Rightarrow> sysres \<Rightarrow> sp_state \<Rightarrow> int \<times> sp_state" where
  "sys_read_pipe fd cnt r s =
     (ret_of r,
      leave (Sys_read fd cnt) r
        (case r of Ret n \<Rightarrow> s\<lparr>pipe_buf := drop (nat n) (pipe_buf s)\<rparr> | Fail e \<Rightarrow> s))"

definition read_possible_sp :: "int \<Rightarrow> nat \<Rightarrow> sysres \<Rightarrow> sp_state \<Rightarrow> bool" where
  "read_possible_sp fd cnt r s =
     (case r of
        Ret n \<Rightarrow> pipe_readable s fd \<and> n = int (min cnt (length (pipe_buf s)))
      | Fail e \<Rightarrow> True)"

definition sys_write_pipe ::
  "int \<Rightarrow> 8 word list \<Rightarrow> sysres \<Rightarrow> sp_state \<Rightarrow> int \<times> sp_state" where
  "sys_write_pipe fd bytes r s =
     (ret_of r,
      leave (Sys_write fd bytes) r
        (case r of
           Ret n \<Rightarrow>
             (if is_obj s fd PipeWr then s\<lparr>pipe_buf := pipe_buf s @ take (nat n) bytes\<rparr>
              else s)
         | Fail e \<Rightarrow> s))"

text \<open>
  A \<^verbatim>\<open>write\<close> of a few bytes on the write end of the pipe (the read end stays open in this
  program). With room for the bytes in the pipe it returns their number. Without room it
  fails with \<^verbatim>\<open>EAGAIN\<close> when the descriptor is non-blocking; when it is blocking the call
  sleeps until a reader has made room.
\<close>

definition pipe_room :: "sp_state \<Rightarrow> nat \<Rightarrow> bool" where
  "pipe_room s n = (int (length (pipe_buf s)) + int n \<le> PIPE_CAPACITY)"

definition write_possible_sp :: "int \<Rightarrow> 8 word list \<Rightarrow> sysres \<Rightarrow> sp_state \<Rightarrow> bool" where
  "write_possible_sp fd bytes r s =
     (is_obj s fd PipeWr \<and>
      (case r of
         Ret n \<Rightarrow> pipe_room s (length bytes) \<and> n = int (length bytes)
       | Fail e \<Rightarrow> \<not> pipe_room s (length bytes) \<and> nonblocking s fd \<and> e = EAGAIN))"

definition write_sleeps_sp :: "int \<Rightarrow> 8 word list \<Rightarrow> sp_state \<Rightarrow> bool" where
  "write_sleeps_sp fd bytes s =
     (is_obj s fd PipeWr \<and> \<not> pipe_room s (length bytes) \<and> \<not> nonblocking s fd)"

subsection \<open>The program\<close>

text \<open>
  \<^verbatim>\<open>void signal_action(int signum)
  { uint8_t empty[1] = {0}; int write_fd = pipefds[1]; write(write_fd, empty, 1); }\<close>

  The argument \<open>wr\<close> is the kernel's answer to the \<^verbatim>\<open>write\<close>; its return value is dropped.
\<close>

definition signal_action :: "int \<Rightarrow> sysres \<Rightarrow> sp_state \<Rightarrow> sp_state" where
  "signal_action signum wr s =
     (let empty = [0 :: 8 word];
          write_fd = snd (pipefds s);
          (ignored, s1) = sys_write_pipe write_fd (take 1 empty) wr s
      in s1)"

text \<open>
  \<^verbatim>\<open>void handle_signal(int signal_fd)
  { uint8_t buff[1] = {0};
    if (read(signal_fd, buff, 1) != 1) { handle_err("read"); }
    printf("Received signal\n"); }\<close>
\<close>

definition handle_signal_sp :: "int \<Rightarrow> sysres \<Rightarrow> sp_state \<Rightarrow> sp_state" where
  "handle_signal_sp signal_fd r s =
     (let (n, s1) = sys_read_pipe signal_fd 1 r s
      in if n \<noteq> 1 then handle_err ''read'' s1
         else printf (''Received signal'' @ [newline]) s1)"

text \<open>Lines 42 to 45: \<^verbatim>\<open>if (pipe(pipefds) == -1) { handle_err("pipe"); }\<close>\<close>

definition main_pipe :: "pipe_res \<Rightarrow> sp_state \<Rightarrow> sp_state" where
  "main_pipe pr s =
     (let (ret, s1) = sys_pipe pr s
      in if ret = - 1 then handle_err ''pipe'' s1 else s1\<lparr>sp_pc := SP_fcntl0\<rparr>)"

text \<open>Lines 46 to 49:
  \<^verbatim>\<open>if (fcntl(pipefds[0], F_SETFD, O_NONBLOCK) == -1) { handle_err("fcntl"); }\<close>\<close>

definition main_fcntl0 :: "sysres \<Rightarrow> sp_state \<Rightarrow> sp_state" where
  "main_fcntl0 r s =
     (let (ret, s1) = sys_fcntl (fst (pipefds s)) F_SETFD O_NONBLOCK r s
      in if ret = - 1 then handle_err ''fcntl'' s1 else s1\<lparr>sp_pc := SP_fcntl1\<rparr>)"

text \<open>Lines 50 to 55:
  \<^verbatim>\<open>if (fcntl(pipefds[1], F_SETFD, O_NONBLOCK) == -1) { handle_err("fcntl"); }
  int read_fd = pipefds[0];\<close>\<close>

definition main_fcntl1 :: "sysres \<Rightarrow> sp_state \<Rightarrow> sp_state" where
  "main_fcntl1 r s =
     (let (ret, s1) = sys_fcntl (snd (pipefds s)) F_SETFD O_NONBLOCK r s
      in if ret = - 1 then handle_err ''fcntl'' s1
         else s1\<lparr>sp_pc := SP_signal, read_fd := fst (pipefds s1)\<rparr>)"

text \<open>Line 57: \<^verbatim>\<open>signal(SIGINT, signal_action);\<close> The result is not inspected.\<close>

definition main_signal :: "sysres \<Rightarrow> sp_state \<Rightarrow> sp_state" where
  "main_signal r s = (sys_signal SIGINT Sig_handler r s)\<lparr>sp_pc := SP_poll\<rparr>"

text \<open>
  Lines 67 to 85, the \<^verbatim>\<open>switch (poll_result)\<close>:
  \<^verbatim>\<open>case 0: printf("Poll timed out without any signals\n"); exit(EXIT_SUCCESS);
  case -1: if (errno == EINTR) { continue; } else { handle_err("poll"); }
  default: handle_signal(read_fd); break;\<close>
  The default case goes on to the \<^verbatim>\<open>read\<close> of \<^verbatim>\<open>handle_signal\<close>.
\<close>

definition poll_switch :: "int \<Rightarrow> sp_state \<Rightarrow> sp_state" where
  "poll_switch poll_result s =
     (if poll_result = 0
        then exit EXIT_SUCCESS (printf (''Poll timed out without any signals'' @ [newline]) s)
      else if poll_result = - 1
        then (if errno s = EINTR then s\<lparr>sp_pc := SP_poll\<rparr> else handle_err ''poll'' s)
      else s\<lparr>sp_pc := SP_read\<rparr>)"

text \<open>Line 66: \<^verbatim>\<open>int poll_result = poll(&pollfd, 1, 5000);\<close> with \<^verbatim>\<open>pollfd.fd = read_fd\<close>.\<close>

definition main_poll :: "sysres \<Rightarrow> sp_state \<Rightarrow> sp_state" where
  "main_poll r s = (let (poll_result, s1) = sys_poll (read_fd s) r s in poll_switch poll_result s1)"

text \<open>Lines 83 to 84: \<^verbatim>\<open>handle_signal(read_fd); break;\<close> and the loop polls again.\<close>

definition main_read :: "sysres \<Rightarrow> sp_state \<Rightarrow> sp_state" where
  "main_read r s = (handle_signal_sp (read_fd s) r s)\<lparr>sp_pc := SP_poll\<rparr>"

text \<open>
  A \<^verbatim>\<open>SIGINT\<close> is delivered: the default action terminates the process; once
  \<^verbatim>\<open>signal_action\<close> is installed it runs, and the interrupted code resumes. The handler
  stays installed (the semantics of \<^verbatim>\<open>signal\<close> in glibc, unless strict System V
  behaviour is asked for). When the \<^verbatim>\<open>write\<close> of the handler sleeps, nothing wakes it:
  the only reader of the pipe is \<^verbatim>\<open>main\<close>, which the handler has interrupted.
\<close>

definition deliver_sigint :: "sysres \<Rightarrow> sp_state \<Rightarrow> sp_state" where
  "deliver_sigint wr s =
     (case sigint s of
        Sig_default \<Rightarrow> s\<lparr>status := Killed SIGINT\<rparr>
      | Sig_handler \<Rightarrow> signal_action SIGINT wr s)"

definition enabled_sp :: "sp_event \<Rightarrow> sp_state \<Rightarrow> bool" where
  "enabled_sp ev s =
     (case ev of
        Sp_sigint wr \<Rightarrow>
          (case sigint s of
             Sig_default \<Rightarrow> True
           | Sig_handler \<Rightarrow> write_possible_sp (snd (pipefds s)) [0] wr s)
      | Sp_sigint_sleeps \<Rightarrow>
          sigint s = Sig_handler \<and> write_sleeps_sp (snd (pipefds s)) [0] s
      | Sp_pipe pr \<Rightarrow> sp_pc s = SP_pipe \<and> pipe_possible pr s
      | Sp_sys r \<Rightarrow>
          (case sp_pc s of
             SP_pipe \<Rightarrow> False
           | SP_fcntl0 \<Rightarrow> fcntl_possible (fst (pipefds s)) r s
           | SP_fcntl1 \<Rightarrow> fcntl_possible (snd (pipefds s)) r s
           | SP_signal \<Rightarrow> signal_possible r
           | SP_poll \<Rightarrow> poll_possible_sp (read_fd s) r s
           | SP_read \<Rightarrow> read_possible_sp (read_fd s) 1 r s))"

definition exec_sp :: "sp_event \<Rightarrow> sp_state \<Rightarrow> sp_state" where
  "exec_sp ev s =
     (case ev of
        Sp_sigint wr \<Rightarrow> deliver_sigint wr s
      | Sp_sigint_sleeps \<Rightarrow> s\<lparr>status := Asleep\<rparr>
      | Sp_pipe pr \<Rightarrow> main_pipe pr s
      | Sp_sys r \<Rightarrow>
          (case sp_pc s of
             SP_pipe \<Rightarrow> s
           | SP_fcntl0 \<Rightarrow> main_fcntl0 r s
           | SP_fcntl1 \<Rightarrow> main_fcntl1 r s
           | SP_signal \<Rightarrow> main_signal r s
           | SP_poll \<Rightarrow> main_poll r s
           | SP_read \<Rightarrow> main_read r s))"

text \<open>A process that has ended takes no step; an event the kernel cannot produce is none.\<close>

definition step_sp :: "sp_event \<Rightarrow> sp_state \<Rightarrow> sp_state" where
  "step_sp ev s = (if status s = Running \<and> enabled_sp ev s then exec_sp ev s else s)"

fun run_sp :: "sp_event list \<Rightarrow> sp_state \<Rightarrow> sp_state" where
  "run_sp [] s = s"
| "run_sp (ev # evs) s = run_sp evs (step_sp ev s)"


section \<open>The signalfd program\<close>

datatype sf_pc = SF_sigprocmask | SF_signalfd | SF_poll | SF_read

text \<open>Of \<^verbatim>\<open>struct signalfd_siginfo\<close> the program reads the field \<^verbatim>\<open>ssi_signo\<close> only.\<close>

record siginfo =
  ssi_signo :: "32 word"

text \<open>
  The state of \<^verbatim>\<open>signalfd.c\<close>: the locals \<^verbatim>\<open>mask\<close> (here \<open>mask_sig\<close>) and
  \<^verbatim>\<open>signal_fd\<close> of \<^verbatim>\<open>main\<close> (the latter is also \<^verbatim>\<open>pollfd.fd\<close>), the signal mask of
  the process, the signals the signalfd descriptor accepts, and whether a \<^verbatim>\<open>SIGINT\<close> is
  pending. \<^verbatim>\<open>SIGINT\<close> is a standard signal:
  one generated while one is pending is merged with it. The counters \<open>sent\<close> and \<open>merged\<close>
  record how many were generated while blocked, and how many of those were merged.
\<close>

record sf_state = proc +
  sf_pc :: sf_pc
  mask_sig :: "int set"
  signal_fd :: int
  blocked :: "int set"
  sfd_mask :: "int set"
  pending :: bool
  sent :: nat
  merged :: nat

datatype sf_event = Sf_sys sysres | Sf_sigint

definition sf_init :: sf_state where
  "sf_init =
     \<lparr>status = Running, errno = 0, stdout = [], stderr = [], fdtab = std_fds, syslog = [],
      sf_pc = SF_sigprocmask, mask_sig = {}, signal_fd = 0, blocked = {}, sfd_mask = {},
      pending = False, sent = 0, merged = 0\<rparr>"

subsection \<open>The kernel's side of the signal queue\<close>

definition sys_sigprocmask :: "int set \<Rightarrow> sysres \<Rightarrow> sf_state \<Rightarrow> sf_state" where
  "sys_sigprocmask sigs r s =
     leave Sys_sigprocmask r (case r of Ret n \<Rightarrow> s\<lparr>blocked := sigs\<rparr> | Fail e \<Rightarrow> s)"

definition sigprocmask_possible :: "sysres \<Rightarrow> bool" where
  "sigprocmask_possible r = (case r of Ret n \<Rightarrow> n = 0 | Fail e \<Rightarrow> True)"

definition sys_signalfd ::
  "int \<Rightarrow> int set \<Rightarrow> 32 word \<Rightarrow> sysres \<Rightarrow> sf_state \<Rightarrow> int \<times> sf_state" where
  "sys_signalfd fd sigs flags r s =
     (ret_of r,
      leave (Sys_signalfd fd flags) r
        (case r of
           Ret n \<Rightarrow>
             s\<lparr>fdtab := (fdtab s)
                  (n \<mapsto> \<lparr>obj = SignalFd, fd_flags = 0, fl_flags = O_RDWR OR (flags AND O_NONBLOCK)\<rparr>),
               sfd_mask := sigs\<rparr>
         | Fail e \<Rightarrow> s))"

definition signalfd_possible :: "sysres \<Rightarrow> sf_state \<Rightarrow> bool" where
  "signalfd_possible r s = (case r of Ret n \<Rightarrow> 0 \<le> n \<and> fdtab s n = None | Fail e \<Rightarrow> True)"

definition sfd_readable :: "sf_state \<Rightarrow> int \<Rightarrow> bool" where
  "sfd_readable s fd = (is_obj s fd SignalFd \<and> pending s \<and> SIGINT \<in> sfd_mask s)"

definition poll_possible_sf :: "int \<Rightarrow> sysres \<Rightarrow> sf_state \<Rightarrow> bool" where
  "poll_possible_sf fd r s =
     (case r of Ret n \<Rightarrow> n = (if sfd_readable s fd then 1 else 0) | Fail e \<Rightarrow> True)"

text \<open>The record the kernel hands out for the pending signal.\<close>

definition pending_info :: "sf_state \<Rightarrow> siginfo" where
  "pending_info s = \<lparr>ssi_signo = word_of_int SIGINT\<rparr>"

definition sys_read_signalfd :: "int \<Rightarrow> nat \<Rightarrow> sysres \<Rightarrow> sf_state \<Rightarrow> int \<times> sf_state" where
  "sys_read_signalfd fd cnt r s =
     (ret_of r,
      leave (Sys_read fd cnt) r (case r of Ret n \<Rightarrow> s\<lparr>pending := False\<rparr> | Fail e \<Rightarrow> s))"

definition read_possible_sf :: "int \<Rightarrow> nat \<Rightarrow> sysres \<Rightarrow> sf_state \<Rightarrow> bool" where
  "read_possible_sf fd cnt r s =
     (case r of
        Ret n \<Rightarrow> sfd_readable s fd \<and> sizeof_siginfo \<le> cnt \<and> n = int sizeof_siginfo
      | Fail e \<Rightarrow> True)"

text \<open>
  A \<^verbatim>\<open>SIGINT\<close> is generated: blocked, it becomes (or stays) pending; otherwise its default
  action terminates the process.
\<close>

definition generate_sigint :: "sf_state \<Rightarrow> sf_state" where
  "generate_sigint s =
     (if SIGINT \<in> blocked s
        then s\<lparr>pending := True, sent := sent s + 1,
               merged := merged s + (if pending s then 1 else 0)\<rparr>
      else s\<lparr>status := Killed SIGINT\<rparr>)"

subsection \<open>The program\<close>

text \<open>What \<^verbatim>\<open>printf\<close> prints for \<^verbatim>\<open>%d\<close>.\<close>

fun digits :: "nat \<Rightarrow> string" where
  "digits n =
     (if n < 10 then [''0123456789'' ! n]
      else digits (n div 10) @ [''0123456789'' ! (n mod 10)])"

definition show_int :: "int \<Rightarrow> string" where
  "show_int i = (if i < 0 then ''-'' @ digits (nat (- i)) else digits (nat i))"

text \<open>
  \<^verbatim>\<open>void handle_signal(int signal_fd)
  { struct signalfd_siginfo siginfo; ssize_t s;
    s = read(signal_fd, &siginfo, sizeof(siginfo));
    if (s != sizeof(siginfo)) { perror("read"); exit(1); }
    uint32_t signo = siginfo.ssi_signo;
    char *signame = strsignal(signo);
    printf("Received signal %d (%s)\n", signo, signame); }\<close>

  The arguments \<open>r\<close> and \<open>info\<close> are the kernel's answer to the \<^verbatim>\<open>read\<close>: its result, and
  the record it stores in \<^verbatim>\<open>siginfo\<close> when it succeeds. The comparison of \<^verbatim>\<open>s\<close> with
  \<^verbatim>\<open>sizeof(siginfo)\<close> is one of unsigned 64-bit values; \<^verbatim>\<open>%d\<close> and \<^verbatim>\<open>strsignal\<close> take the
  \<^verbatim>\<open>uint32_t\<close> as an \<^verbatim>\<open>int\<close>. The library function \<^verbatim>\<open>strsignal\<close> is a parameter.
\<close>

definition handle_signal_sf ::
  "(int \<Rightarrow> string) \<Rightarrow> int \<Rightarrow> sysres \<Rightarrow> siginfo \<Rightarrow> sf_state \<Rightarrow> sf_state" where
  "handle_signal_sf strsignal sigfd r info s =
     (let (n, s1) = sys_read_signalfd sigfd sizeof_siginfo r s
      in if (word_of_int n :: 64 word) \<noteq> word_of_nat sizeof_siginfo
           then exit 1 (perror ''read'' s1)
         else let signo = ssi_signo info;
                  signame = strsignal (sint signo)
              in printf (''Received signal '' @ show_int (sint signo) @ '' ('' @ signame @ '')''
                           @ [newline]) s1)"

text \<open>Lines 14 to 18:
  \<^verbatim>\<open>sigemptyset(&mask); sigaddset(&mask, SIGINT); sigprocmask(SIG_SETMASK, &mask, NULL);\<close>
  The result is not inspected.\<close>

definition main_sigprocmask :: "sysres \<Rightarrow> sf_state \<Rightarrow> sf_state" where
  "main_sigprocmask r s =
     (let s0 = s\<lparr>mask_sig := insert SIGINT {}\<rparr>
      in (sys_sigprocmask (mask_sig s0) r s0)\<lparr>sf_pc := SF_signalfd\<rparr>)"

text \<open>Lines 20 to 25: \<^verbatim>\<open>int signal_fd = signalfd(-1, &mask, SFD_NONBLOCK);\<close>
  The result is not inspected; it becomes \<^verbatim>\<open>pollfd.fd\<close>.\<close>

definition main_signalfd :: "sysres \<Rightarrow> sf_state \<Rightarrow> sf_state" where
  "main_signalfd r s =
     (let (fd, s1) = sys_signalfd (- 1) (mask_sig s) SFD_NONBLOCK r s
      in s1\<lparr>sf_pc := SF_poll, signal_fd := fd\<rparr>)"

text \<open>Lines 27 to 31: \<^verbatim>\<open>while (poll(&pollfd, 1, 5000) > 0) { handle_signal(pollfd.fd); }\<close>
  After the loop \<^verbatim>\<open>main\<close> reaches its closing brace, which returns 0.\<close>

definition main_poll_sf :: "sysres \<Rightarrow> sf_state \<Rightarrow> sf_state" where
  "main_poll_sf r s =
     (let (ret, s1) = sys_poll (signal_fd s) r s
      in if ret > 0 then s1\<lparr>sf_pc := SF_read\<rparr> else exit 0 s1)"

definition main_read_sf :: "(int \<Rightarrow> string) \<Rightarrow> sysres \<Rightarrow> sf_state \<Rightarrow> sf_state" where
  "main_read_sf strsignal r s =
     (handle_signal_sf strsignal (signal_fd s) r (pending_info s) s)\<lparr>sf_pc := SF_poll\<rparr>"

definition enabled_sf :: "sf_event \<Rightarrow> sf_state \<Rightarrow> bool" where
  "enabled_sf ev s =
     (case ev of
        Sf_sigint \<Rightarrow> True
      | Sf_sys r \<Rightarrow>
          (case sf_pc s of
             SF_sigprocmask \<Rightarrow> sigprocmask_possible r
           | SF_signalfd \<Rightarrow> signalfd_possible r s
           | SF_poll \<Rightarrow> poll_possible_sf (signal_fd s) r s
           | SF_read \<Rightarrow> read_possible_sf (signal_fd s) sizeof_siginfo r s))"

definition exec_sf :: "(int \<Rightarrow> string) \<Rightarrow> sf_event \<Rightarrow> sf_state \<Rightarrow> sf_state" where
  "exec_sf strsignal ev s =
     (case ev of
        Sf_sigint \<Rightarrow> generate_sigint s
      | Sf_sys r \<Rightarrow>
          (case sf_pc s of
             SF_sigprocmask \<Rightarrow> main_sigprocmask r s
           | SF_signalfd \<Rightarrow> main_signalfd r s
           | SF_poll \<Rightarrow> main_poll_sf r s
           | SF_read \<Rightarrow> main_read_sf strsignal r s))"

definition step_sf :: "(int \<Rightarrow> string) \<Rightarrow> sf_event \<Rightarrow> sf_state \<Rightarrow> sf_state" where
  "step_sf strsignal ev s =
     (if status s = Running \<and> enabled_sf ev s then exec_sf strsignal ev s else s)"

fun run_sf :: "(int \<Rightarrow> string) \<Rightarrow> sf_event list \<Rightarrow> sf_state \<Rightarrow> sf_state" where
  "run_sf strsignal [] s = s"
| "run_sf strsignal (ev # evs) s = run_sf strsignal evs (step_sf strsignal ev s)"

definition notifications_sf :: "sf_state \<Rightarrow> nat" where
  "notifications_sf s = length (filter (\<lambda>l. take 16 l = ''Received signal '') (stdout s))"

text \<open>
  A function to stand for \<^verbatim>\<open>strsignal\<close> in the examples. It gives the signals 1, 2 and 15
  the names glibc gives them; the examples use no other number.
\<close>

definition strsignal_glibc :: "int \<Rightarrow> string" where
  "strsignal_glibc n =
     (if n = 1 then ''Hangup'' else if n = 2 then ''Interrupt'' else if n = 15 then ''Terminated''
      else ''Unknown signal '' @ show_int n)"

section \<open>Counting, and what holds in every state the programs can reach\<close>

definition is_poll :: "syscall \<Rightarrow> bool" where
  "is_poll c = (case c of Sys_poll fd events timeout \<Rightarrow> True | _ \<Rightarrow> False)"


text \<open>The number of \<^verbatim>\<open>poll\<close> calls issued so far.\<close>

definition polls :: "'a proc_scheme \<Rightarrow> nat" where
  "polls s = length (filter (\<lambda>(c, n). is_poll c) (syslog s))"


text \<open>The system calls of a setup that succeeded, for the descriptor pair \<open>p\<close>.\<close>

definition sp_setup_calls :: "int \<times> int \<Rightarrow> (syscall \<times> int) list" where
  "sp_setup_calls p =
     [(Sys_pipe, 0),
      (Sys_fcntl (fst p) F_SETFD O_NONBLOCK, 0),
      (Sys_fcntl (snd p) F_SETFD O_NONBLOCK, 0)]"


text \<open>The descriptors, the disposition and the flags, by program counter.\<close>

definition sp_inv :: "sp_state \<Rightarrow> bool" where
  "sp_inv s =
     ((sp_pc s = SP_pipe \<longrightarrow> pipefds s = (0, 0)) \<and>
      (sp_pc s \<noteq> SP_pipe \<longrightarrow>
         is_obj s (fst (pipefds s)) PipeRd \<and> is_obj s (snd (pipefds s)) PipeWr) \<and>
      (sp_pc s = SP_signal \<or> sp_pc s = SP_poll \<or> sp_pc s = SP_read \<longrightarrow>
         read_fd s = fst (pipefds s)) \<and>
      (sigint s = Sig_handler \<longrightarrow> sp_pc s = SP_poll \<or> sp_pc s = SP_read) \<and>
      (\<forall>fd d. fdtab s fd = Some d \<longrightarrow> fl_flags d AND O_NONBLOCK = 0) \<and>
      (status s = Running \<longrightarrow> stderr s = []))"

text \<open>The log of system calls, by program counter.\<close>

definition sp_log_inv :: "sp_state \<Rightarrow> bool" where
  "sp_log_inv s =
     ((status s = Running \<and> sp_pc s = SP_pipe \<longrightarrow> syslog s = []) \<and>
      (status s = Running \<and> sp_pc s = SP_fcntl0 \<longrightarrow> syslog s = take 1 (sp_setup_calls (pipefds s))) \<and>
      (status s = Running \<and> sp_pc s = SP_fcntl1 \<longrightarrow> syslog s = take 2 (sp_setup_calls (pipefds s))) \<and>
      (status s = Running \<and> sp_pc s = SP_signal \<longrightarrow> syslog s = sp_setup_calls (pipefds s)) \<and>
      (sp_pc s = SP_poll \<or> sp_pc s = SP_read \<longrightarrow>
         (\<exists>rest. syslog s =
            sp_setup_calls (pipefds s)
              @ [(Sys_signal SIGINT, if sigint s = Sig_handler then 0 else - 1)] @ rest)))"

text \<open>
  The signalfd program: the descriptor it polls is the signalfd descriptor for \<^verbatim>\<open>SIGINT\<close>,
  or \<open>-1\<close> when \<^verbatim>\<open>signalfd\<close> failed.
\<close>

definition sf_inv :: "sf_state \<Rightarrow> bool" where
  "sf_inv s =
     ((sf_pc s = SF_poll \<or> sf_pc s = SF_read \<longrightarrow>
         is_obj s (signal_fd s) SignalFd \<and> SIGINT \<in> sfd_mask s \<or> signal_fd s = - 1) \<and>
      (\<forall>fd d. fdtab s fd = Some d \<longrightarrow> 0 \<le> fd) \<and>
      (sf_pc s \<noteq> SF_sigprocmask \<longrightarrow> mask_sig s = {SIGINT}) \<and>
      (status s = Running \<longrightarrow> stderr s = []) \<and>
      (status s = Running \<and> (sf_pc s = SF_sigprocmask \<or> sf_pc s = SF_signalfd) \<longrightarrow>
         polls s = 0))"

text \<open>The consume step of the signalfd program follows a wait that reported data.\<close>

definition sf_read_inv :: "sf_state \<Rightarrow> bool" where
  "sf_read_inv s =
     (status s = Running \<and> sf_pc s = SF_read \<longrightarrow>
        syslog s \<noteq> [] \<and> last (syslog s) = (Sys_poll (signal_fd s) POLLIN 5000, 1))"

text \<open>Runs used as examples: a setup in which every call succeeds, for each program.\<close>

definition sp_setup_ok :: "sp_event list" where
  "sp_setup_ok = [Sp_pipe (Pipe_ok 3 4), Sp_sys (Ret 0), Sp_sys (Ret 0), Sp_sys (Ret 0)]"

definition sf_setup_ok :: "sf_event list" where
  "sf_setup_ok = [Sf_sys (Ret 0), Sf_sys (Ret 3)]"

section \<open>The two programs at a finer grain\<close>

text \<open>
  In the machines above one step is a system call together with the code of \<^verbatim>\<open>main\<close> that
  follows it up to the next call, and a \<^verbatim>\<open>SIGINT\<close> is generated and delivered in one
  step. How many lines are printed for how many signals depends on more than that: a
  \<^verbatim>\<open>SIGINT\<close> can arrive after a call has returned and before \<^verbatim>\<open>main\<close> has acted on the
  result, and a signal sent to a process is first pending and delivered later. The machines
  of this section tell these moments apart: the answer of the kernel to a call is one step,
  and the code of \<^verbatim>\<open>main\<close> from there to its next call is another. That code inspects the
  result, prints, exits and assigns locals, and the handler touches the pipe only: for what
  this section counts, a \<^verbatim>\<open>SIGINT\<close> delivered in the middle of that code is like one
  delivered just before it or just after it.
\<close>

subsection \<open>The self-pipe program\<close>














subsection \<open>The signalfd program\<close>

definition call_sf :: "sysres \<Rightarrow> sf_state \<Rightarrow> int \<times> sf_state" where
  "call_sf r s =
     (case sf_pc s of
        SF_sigprocmask \<Rightarrow>
          (let s0 = s\<lparr>mask_sig := insert SIGINT {}\<rparr>
           in (ret_of r, sys_sigprocmask (mask_sig s0) r s0))
      | SF_signalfd \<Rightarrow> sys_signalfd (- 1) (mask_sig s) SFD_NONBLOCK r s
      | SF_poll \<Rightarrow> sys_poll (signal_fd s) r s
      | SF_read \<Rightarrow> sys_read_signalfd (signal_fd s) sizeof_siginfo r s)"

text \<open>
  The code between the return of the call at each program counter and the next call:
  nothing after \<^verbatim>\<open>sigprocmask\<close>, the assignments of lines 20 to 25, the test of line 27
  with the end of \<^verbatim>\<open>main\<close>, and lines 39 to 48 of \<^verbatim>\<open>handle_signal\<close>. The record \<open>info\<close>
  is what a \<^verbatim>\<open>read\<close> that succeeded has stored in \<^verbatim>\<open>siginfo\<close>.
\<close>

definition resume_sf :: "(int \<Rightarrow> string) \<Rightarrow> int \<Rightarrow> siginfo \<Rightarrow> sf_state \<Rightarrow> sf_state" where
  "resume_sf strsignal ret info s =
     (case sf_pc s of
        SF_sigprocmask \<Rightarrow> s\<lparr>sf_pc := SF_signalfd\<rparr>
      | SF_signalfd \<Rightarrow> s\<lparr>sf_pc := SF_poll, signal_fd := ret\<rparr>
      | SF_poll \<Rightarrow> if ret > 0 then s\<lparr>sf_pc := SF_read\<rparr> else exit 0 s
      | SF_read \<Rightarrow>
          (if (word_of_int ret :: 64 word) \<noteq> word_of_nat sizeof_siginfo
             then exit 1 (perror ''read'' s)
           else let signo = ssi_signo info;
                    signame = strsignal (sint signo)
                in printf (''Received signal '' @ show_int (sint signo) @ '' ('' @ signame @ '')''
                             @ [newline]) s)\<lparr>sf_pc := SF_poll\<rparr>)"

text \<open>
  The state: that of the program, the result of a call that has returned and on which
  \<^verbatim>\<open>main\<close> has not acted yet, and how many \<^verbatim>\<open>SIGINT\<close>s were sent to the process.
\<close>

record sff_state =
  proc_sf :: sf_state
  returned_sf :: "int option"
  sent_sf :: nat

text \<open>
  The events: the kernel answers the pending call of \<^verbatim>\<open>main\<close>; \<^verbatim>\<open>main\<close> runs on to its next
  call; a \<^verbatim>\<open>SIGINT\<close> is sent to the process.
\<close>

datatype sff_event = Ff_sys sysres | Ff_resume | Ff_send

definition sff_init :: sff_state where
  "sff_init = \<lparr>proc_sf = sf_init, returned_sf = None, sent_sf = 0\<rparr>"

definition enabled_sff :: "sff_event \<Rightarrow> sff_state \<Rightarrow> bool" where
  "enabled_sff ev t =
     (case ev of
        Ff_sys r \<Rightarrow> returned_sf t = None \<and> enabled_sf (Sf_sys r) (proc_sf t)
      | Ff_resume \<Rightarrow> returned_sf t \<noteq> None
      | Ff_send \<Rightarrow> True)"

definition exec_sff :: "(int \<Rightarrow> string) \<Rightarrow> sff_event \<Rightarrow> sff_state \<Rightarrow> sff_state" where
  "exec_sff strsignal ev t =
     (case ev of
        Ff_sys r \<Rightarrow>
          (let (ret, s1) = call_sf r (proc_sf t) in t\<lparr>proc_sf := s1, returned_sf := Some ret\<rparr>)
      | Ff_resume \<Rightarrow>
          (case returned_sf t of
             None \<Rightarrow> t
           | Some ret \<Rightarrow>
               t\<lparr>proc_sf := resume_sf strsignal ret (pending_info (proc_sf t)) (proc_sf t),
                 returned_sf := None\<rparr>)
      | Ff_send \<Rightarrow> t\<lparr>proc_sf := generate_sigint (proc_sf t), sent_sf := sent_sf t + 1\<rparr>)"

definition step_sff :: "(int \<Rightarrow> string) \<Rightarrow> sff_event \<Rightarrow> sff_state \<Rightarrow> sff_state" where
  "step_sff strsignal ev t =
     (if status (proc_sf t) = Running \<and> enabled_sff ev t then exec_sff strsignal ev t else t)"

fun run_sff :: "(int \<Rightarrow> string) \<Rightarrow> sff_event list \<Rightarrow> sff_state \<Rightarrow> sff_state" where
  "run_sff strsignal [] t = t"
| "run_sff strsignal (ev # evs) t = run_sff strsignal evs (step_sff strsignal ev t)"

definition refine_sf :: "sf_event \<Rightarrow> sff_event list" where
  "refine_sf ev = (case ev of Sf_sys r \<Rightarrow> [Ff_sys r, Ff_resume] | Sf_sigint \<Rightarrow> [Ff_send])"







text \<open>The descriptor \<open>n\<close> is what \<^verbatim>\<open>signalfd\<close> returns: \<open>-1\<close>, or a descriptor that accepts
  \<^verbatim>\<open>SIGINT\<close>.\<close>

definition sfd_ok :: "sf_state \<Rightarrow> int \<Rightarrow> bool" where
  "sfd_ok s n = (n = - 1 \<or> is_obj s n SignalFd \<and> SIGINT \<in> sfd_mask s)"




section \<open>Symbolic execution of the self-pipe program\<close>


lemma main_pipe_ok:
  "main_pipe (Pipe_ok r w) s =
     s\<lparr>fdtab := (fdtab s)
            (r \<mapsto> \<lparr>obj = PipeRd, fd_flags = 0, fl_flags = O_RDONLY\<rparr>,
             w \<mapsto> \<lparr>obj = PipeWr, fd_flags = 0, fl_flags = O_WRONLY\<rparr>),
       syslog := syslog s @ [(Sys_pipe, 0)], sp_pc := SP_fcntl0, pipefds := (r, w)\<rparr>"
  by (simp add: main_pipe_def sys_pipe_def leave_def)

lemma main_pipe_err:
  "main_pipe (Pipe_err e) s =
     s\<lparr>status := Exited EXIT_FAILURE, errno := e, stderr := stderr s @ [(''pipe'', e)],
       syslog := syslog s @ [(Sys_pipe, - 1)]\<rparr>"
  by (simp add: main_pipe_def sys_pipe_def leave_def handle_err_def exit_def perror_def)

lemma main_fcntl0_ok:
  "fdtab s (fst (pipefds s)) = Some d \<Longrightarrow>
   main_fcntl0 (Ret 0) s =
     s\<lparr>fdtab := (fdtab s)(fst (pipefds s) \<mapsto> d\<lparr>fd_flags := O_NONBLOCK AND FD_CLOEXEC\<rparr>),
       syslog := syslog s @ [(Sys_fcntl (fst (pipefds s)) F_SETFD O_NONBLOCK, 0)],
       sp_pc := SP_fcntl1\<rparr>"
  by (simp add: main_fcntl0_def sys_fcntl_def leave_def ret_of_def fcntl_flags_def)

lemma main_fcntl0_err:
  "main_fcntl0 (Fail e) s =
     s\<lparr>status := Exited EXIT_FAILURE, errno := e, stderr := stderr s @ [(''fcntl'', e)],
       syslog := syslog s @ [(Sys_fcntl (fst (pipefds s)) F_SETFD O_NONBLOCK, - 1)]\<rparr>"
  by (simp add: main_fcntl0_def sys_fcntl_def leave_def ret_of_def handle_err_def exit_def perror_def)

lemma main_fcntl1_ok:
  "fdtab s (snd (pipefds s)) = Some d \<Longrightarrow>
   main_fcntl1 (Ret 0) s =
     s\<lparr>fdtab := (fdtab s)(snd (pipefds s) \<mapsto> d\<lparr>fd_flags := O_NONBLOCK AND FD_CLOEXEC\<rparr>),
       syslog := syslog s @ [(Sys_fcntl (snd (pipefds s)) F_SETFD O_NONBLOCK, 0)],
       sp_pc := SP_signal, read_fd := fst (pipefds s)\<rparr>"
  by (simp add: main_fcntl1_def sys_fcntl_def leave_def ret_of_def fcntl_flags_def)

lemma main_fcntl1_err:
  "main_fcntl1 (Fail e) s =
     s\<lparr>status := Exited EXIT_FAILURE, errno := e, stderr := stderr s @ [(''fcntl'', e)],
       syslog := syslog s @ [(Sys_fcntl (snd (pipefds s)) F_SETFD O_NONBLOCK, - 1)]\<rparr>"
  by (simp add: main_fcntl1_def sys_fcntl_def leave_def ret_of_def handle_err_def exit_def perror_def)

lemma main_signal_ok:
  "main_signal (Ret n) s =
     s\<lparr>syslog := syslog s @ [(Sys_signal SIGINT, n)], sp_pc := SP_poll, sigint := Sig_handler\<rparr>"
  by (simp add: main_signal_def sys_signal_def leave_def)

lemma main_signal_err:
  "main_signal (Fail e) s =
     s\<lparr>errno := e, syslog := syslog s @ [(Sys_signal SIGINT, - 1)], sp_pc := SP_poll\<rparr>"
  by (simp add: main_signal_def sys_signal_def leave_def)

lemma main_poll_timeout:
  "main_poll (Ret 0) s =
     s\<lparr>status := Exited EXIT_SUCCESS,
       stdout := stdout s @ [''Poll timed out without any signals'' @ [newline]],
       syslog := syslog s @ [(Sys_poll (read_fd s) POLLIN 5000, 0)]\<rparr>"
  by (simp add: main_poll_def sys_poll_def poll_switch_def leave_def ret_of_def exit_def printf_def)

lemma main_poll_ready:
  "0 < n \<Longrightarrow> main_poll (Ret n) s =
     s\<lparr>syslog := syslog s @ [(Sys_poll (read_fd s) POLLIN 5000, n)], sp_pc := SP_read\<rparr>"
  by (simp add: main_poll_def sys_poll_def poll_switch_def leave_def ret_of_def)

lemma main_poll_eintr:
  "main_poll (Fail EINTR) s =
     s\<lparr>errno := EINTR, syslog := syslog s @ [(Sys_poll (read_fd s) POLLIN 5000, - 1)],
       sp_pc := SP_poll\<rparr>"
  by (simp add: main_poll_def sys_poll_def poll_switch_def leave_def ret_of_def)

lemma main_poll_err:
  "e \<noteq> EINTR \<Longrightarrow> main_poll (Fail e) s =
     s\<lparr>status := Exited EXIT_FAILURE, errno := e, stderr := stderr s @ [(''poll'', e)],
       syslog := syslog s @ [(Sys_poll (read_fd s) POLLIN 5000, - 1)]\<rparr>"
  by (simp add: main_poll_def sys_poll_def poll_switch_def leave_def ret_of_def handle_err_def exit_def perror_def)

lemma main_read_ok:
  "main_read (Ret 1) s =
     s\<lparr>stdout := stdout s @ [''Received signal'' @ [newline]],
       syslog := syslog s @ [(Sys_read (read_fd s) 1, 1)],
       sp_pc := SP_poll, pipe_buf := drop 1 (pipe_buf s)\<rparr>"
  by (simp add: main_read_def handle_signal_sp_def sys_read_pipe_def leave_def ret_of_def printf_def)

lemma main_read_err:
  "main_read (Fail e) s =
     s\<lparr>status := Exited EXIT_FAILURE, errno := e, stderr := stderr s @ [(''read'', e)],
       syslog := syslog s @ [(Sys_read (read_fd s) 1, - 1)], sp_pc := SP_poll\<rparr>"
  by (simp add: main_read_def handle_signal_sp_def sys_read_pipe_def leave_def ret_of_def handle_err_def exit_def perror_def)

lemma signal_action_ok:
  "is_obj s (snd (pipefds s)) PipeWr \<Longrightarrow>
   signal_action signum (Ret 1) s =
     s\<lparr>syslog := syslog s @ [(Sys_write (snd (pipefds s)) [0], 1)],
       pipe_buf := pipe_buf s @ [0]\<rparr>"
  by (simp add: signal_action_def sys_write_pipe_def leave_def ret_of_def Let_def)

lemma signal_action_err:
  "signal_action signum (Fail e) s =
     s\<lparr>errno := e, syslog := syslog s @ [(Sys_write (snd (pipefds s)) [0], - 1)]\<rparr>"
  by (simp add: signal_action_def sys_write_pipe_def leave_def ret_of_def Let_def)

lemmas sp_exec =
  main_pipe_ok main_pipe_err main_fcntl0_ok main_fcntl0_err main_fcntl1_ok main_fcntl1_err
  main_signal_ok main_signal_err main_poll_timeout main_poll_ready main_poll_eintr
  main_poll_err main_read_ok main_read_err signal_action_ok signal_action_err

text \<open>The steps of the machine, one case for each system call and each kind of answer.\<close>

lemma step_sp_cases [case_names idle pipe_ok pipe_err fcntl0_ok fcntl0_err fcntl1_ok fcntl1_err
    signal_ok signal_err poll_timeout poll_ready poll_eintr poll_err read_ok read_err
    killed handler_ok handler_err handler_sleeps]:
  obtains
    (idle) "step_sp ev s = s"
  | (pipe_ok) r w where "ev = Sp_pipe (Pipe_ok r w)" "status s = Running" "sp_pc s = SP_pipe"
      "0 \<le> r" "0 \<le> w" "r \<noteq> w" "fdtab s r = None" "fdtab s w = None"
      "step_sp ev s = main_pipe (Pipe_ok r w) s"
  | (pipe_err) e where "ev = Sp_pipe (Pipe_err e)" "status s = Running" "sp_pc s = SP_pipe"
      "step_sp ev s = main_pipe (Pipe_err e) s"
  | (fcntl0_ok) d where "ev = Sp_sys (Ret 0)" "status s = Running" "sp_pc s = SP_fcntl0"
      "fdtab s (fst (pipefds s)) = Some d" "step_sp ev s = main_fcntl0 (Ret 0) s"
  | (fcntl0_err) e where "ev = Sp_sys (Fail e)" "status s = Running" "sp_pc s = SP_fcntl0"
      "step_sp ev s = main_fcntl0 (Fail e) s"
  | (fcntl1_ok) d where "ev = Sp_sys (Ret 0)" "status s = Running" "sp_pc s = SP_fcntl1"
      "fdtab s (snd (pipefds s)) = Some d" "step_sp ev s = main_fcntl1 (Ret 0) s"
  | (fcntl1_err) e where "ev = Sp_sys (Fail e)" "status s = Running" "sp_pc s = SP_fcntl1"
      "step_sp ev s = main_fcntl1 (Fail e) s"
  | (signal_ok) "ev = Sp_sys (Ret 0)" "status s = Running" "sp_pc s = SP_signal"
      "step_sp ev s = main_signal (Ret 0) s"
  | (signal_err) e where "ev = Sp_sys (Fail e)" "status s = Running" "sp_pc s = SP_signal"
      "step_sp ev s = main_signal (Fail e) s"
  | (poll_timeout) "ev = Sp_sys (Ret 0)" "status s = Running" "sp_pc s = SP_poll"
      "\<not> pipe_readable s (read_fd s)" "step_sp ev s = main_poll (Ret 0) s"
  | (poll_ready) "ev = Sp_sys (Ret 1)" "status s = Running" "sp_pc s = SP_poll"
      "pipe_readable s (read_fd s)" "step_sp ev s = main_poll (Ret 1) s"
  | (poll_eintr) "ev = Sp_sys (Fail EINTR)" "status s = Running" "sp_pc s = SP_poll"
      "step_sp ev s = main_poll (Fail EINTR) s"
  | (poll_err) e where "ev = Sp_sys (Fail e)" "e \<noteq> EINTR" "status s = Running"
      "sp_pc s = SP_poll" "step_sp ev s = main_poll (Fail e) s"
  | (read_ok) "ev = Sp_sys (Ret 1)" "status s = Running" "sp_pc s = SP_read"
      "pipe_readable s (read_fd s)" "step_sp ev s = main_read (Ret 1) s"
  | (read_err) e where "ev = Sp_sys (Fail e)" "status s = Running" "sp_pc s = SP_read"
      "step_sp ev s = main_read (Fail e) s"
  | (killed) wr where "ev = Sp_sigint wr" "status s = Running" "sigint s = Sig_default"
      "step_sp ev s = s\<lparr>status := Killed SIGINT\<rparr>"
  | (handler_ok) "ev = Sp_sigint (Ret 1)" "status s = Running" "sigint s = Sig_handler"
      "is_obj s (snd (pipefds s)) PipeWr" "step_sp ev s = signal_action SIGINT (Ret 1) s"
  | (handler_err) "ev = Sp_sigint (Fail EAGAIN)" "status s = Running" "sigint s = Sig_handler"
      "nonblocking s (snd (pipefds s))" "step_sp ev s = signal_action SIGINT (Fail EAGAIN) s"
  | (handler_sleeps) "ev = Sp_sigint_sleeps" "status s = Running" "sigint s = Sig_handler"
      "step_sp ev s = s\<lparr>status := Asleep\<rparr>"
proof (cases "status s = Running \<and> enabled_sp ev s")
  case False
  then have "step_sp ev s = s" unfolding step_sp_def by (simp only: if_False)
  then show thesis by (rule idle)
next
  case True
  then have run: "status s = Running" and en: "enabled_sp ev s"
    and st: "step_sp ev s = exec_sp ev s"
    by (simp_all add: step_sp_def)
  show thesis
  proof (cases ev)
    case (Sp_pipe pr)
    with en have pc: "sp_pc s = SP_pipe" and pp: "pipe_possible pr s"
      by (simp_all add: enabled_sp_def)
    from st Sp_pipe have ex: "step_sp ev s = main_pipe pr s" by (simp add: exec_sp_def)
    show thesis
    proof (cases pr)
      case (Pipe_ok r w)
      with pp have "0 \<le> r" "0 \<le> w" "r \<noteq> w" "fdtab s r = None" "fdtab s w = None"
        by (simp_all add: pipe_possible_def)
      with Pipe_ok Sp_pipe run pc ex show thesis by (intro pipe_ok[of r w]) simp_all
    next
      case (Pipe_err e)
      with Sp_pipe run pc ex show thesis by (intro pipe_err[of e]) simp_all
    qed
  next
    case (Sp_sys r)
    show thesis
    proof (cases "sp_pc s")
      case SP_pipe
      with en Sp_sys show thesis by (simp add: enabled_sp_def)
    next
      case SP_fcntl0
      with st Sp_sys have ex: "step_sp ev s = main_fcntl0 r s" by (simp add: exec_sp_def)
      from en Sp_sys SP_fcntl0 have fp: "fcntl_possible (fst (pipefds s)) r s"
        by (simp add: enabled_sp_def)
      show thesis
      proof (cases r)
        case (Ret n)
        with fp obtain d where "n = 0" "fdtab s (fst (pipefds s)) = Some d"
          by (auto simp: fcntl_possible_def)
        with Ret Sp_sys run SP_fcntl0 ex show thesis by (intro fcntl0_ok[of d]) simp_all
      next
        case (Fail e)
        with Sp_sys run SP_fcntl0 ex show thesis by (intro fcntl0_err[of e]) simp_all
      qed
    next
      case SP_fcntl1
      with st Sp_sys have ex: "step_sp ev s = main_fcntl1 r s" by (simp add: exec_sp_def)
      from en Sp_sys SP_fcntl1 have fp: "fcntl_possible (snd (pipefds s)) r s"
        by (simp add: enabled_sp_def)
      show thesis
      proof (cases r)
        case (Ret n)
        with fp obtain d where "n = 0" "fdtab s (snd (pipefds s)) = Some d"
          by (auto simp: fcntl_possible_def)
        with Ret Sp_sys run SP_fcntl1 ex show thesis by (intro fcntl1_ok[of d]) simp_all
      next
        case (Fail e)
        with Sp_sys run SP_fcntl1 ex show thesis by (intro fcntl1_err[of e]) simp_all
      qed
    next
      case SP_signal
      with st Sp_sys have ex: "step_sp ev s = main_signal r s" by (simp add: exec_sp_def)
      from en Sp_sys SP_signal have fp: "signal_possible r" by (simp add: enabled_sp_def)
      show thesis
      proof (cases r)
        case (Ret n)
        with fp have "n = 0" by (simp add: signal_possible_def)
        with Ret Sp_sys run SP_signal ex show thesis by (intro signal_ok) simp_all
      next
        case (Fail e)
        with Sp_sys run SP_signal ex show thesis by (intro signal_err[of e]) simp_all
      qed
    next
      case SP_poll
      with st Sp_sys have ex: "step_sp ev s = main_poll r s" by (simp add: exec_sp_def)
      from en Sp_sys SP_poll have fp: "poll_possible_sp (read_fd s) r s"
        by (simp add: enabled_sp_def)
      show thesis
      proof (cases r)
        case (Ret n)
        show thesis
        proof (cases "pipe_readable s (read_fd s)")
          case True
          with fp Ret have "n = 1" by (simp add: poll_possible_sp_def)
          with True Ret Sp_sys run SP_poll ex show thesis by (intro poll_ready) simp_all
        next
          case False
          with fp Ret have "n = 0" by (simp add: poll_possible_sp_def)
          with False Ret Sp_sys run SP_poll ex show thesis by (intro poll_timeout) simp_all
        qed
      next
        case (Fail e)
        show thesis
        proof (cases "e = EINTR")
          case True
          with Fail Sp_sys run SP_poll ex show thesis by (intro poll_eintr) simp_all
        next
          case False
          with Fail Sp_sys run SP_poll ex show thesis by (intro poll_err[of e]) simp_all
        qed
      qed
    next
      case SP_read
      with st Sp_sys have ex: "step_sp ev s = main_read r s" by (simp add: exec_sp_def)
      from en Sp_sys SP_read have fp: "read_possible_sp (read_fd s) 1 r s"
        by (simp add: enabled_sp_def)
      show thesis
      proof (cases r)
        case (Ret n)
        with fp have rd: "pipe_readable s (read_fd s)"
          and n: "n = int (min 1 (length (pipe_buf s)))"
          by (simp_all add: read_possible_sp_def)
        from rd have "pipe_buf s \<noteq> []" by (simp add: pipe_readable_def)
        then have "0 < length (pipe_buf s)" by simp
        with n have "n = 1" by (simp add: min_def)
        with rd Ret Sp_sys run SP_read ex show thesis by (intro read_ok) simp_all
      next
        case (Fail e)
        with Sp_sys run SP_read ex show thesis by (intro read_err[of e]) simp_all
      qed
    qed
  next
    case (Sp_sigint wr)
    show thesis
    proof (cases "sigint s")
      case Sig_default
      with st Sp_sigint have "step_sp ev s = s\<lparr>status := Killed SIGINT\<rparr>"
        by (simp add: exec_sp_def deliver_sigint_def)
      with Sp_sigint run Sig_default show thesis by (intro killed[of wr]) simp_all
    next
      case Sig_handler
      with st Sp_sigint have ex: "step_sp ev s = signal_action SIGINT wr s"
        by (simp add: exec_sp_def deliver_sigint_def)
      from en Sp_sigint Sig_handler have fp: "write_possible_sp (snd (pipefds s)) [0] wr s"
        by (simp add: enabled_sp_def)
      show thesis
      proof (cases wr)
        case (Ret n)
        with fp have "is_obj s (snd (pipefds s)) PipeWr" "n = 1"
          by (simp_all add: write_possible_sp_def)
        with Ret Sp_sigint run Sig_handler ex show thesis by (intro handler_ok) simp_all
      next
        case (Fail e)
        with fp have "nonblocking s (snd (pipefds s))" "e = EAGAIN"
          by (simp_all add: write_possible_sp_def)
        with Fail Sp_sigint run Sig_handler ex show thesis by (intro handler_err) simp_all
      qed
    qed
  next
    case Sp_sigint_sleeps
    with en have "sigint s = Sig_handler" by (simp add: enabled_sp_def)
    moreover from st Sp_sigint_sleeps have "step_sp ev s = s\<lparr>status := Asleep\<rparr>"
      by (simp add: exec_sp_def)
    ultimately show thesis using Sp_sigint_sleeps run by (intro handler_sleeps) simp_all
  qed
qed

section \<open>Invariants of the self-pipe program\<close>

lemma run_sp_snoc: "run_sp (evs @ [ev]) s = step_sp ev (run_sp evs s)"
  by (induction evs arbitrary: s) simp_all

lemma step_sp_ended: "status s \<noteq> Running \<Longrightarrow> step_sp ev s = s"
  by (simp add: step_sp_def)

lemma run_sp_ended: "status s \<noteq> Running \<Longrightarrow> run_sp evs s = s"
  by (induction evs) (simp_all add: step_sp_ended)

lemma sp_inv_init: "sp_inv sp_init"
  by (simp add: sp_inv_def sp_init_def std_fds_def O_NONBLOCK_def O_RDWR_def)

lemma sp_inv_step:
  assumes "sp_inv s"
  shows "sp_inv (step_sp ev s)"
  using assms
  by (cases ev s rule: step_sp_cases)
     (auto simp: sp_inv_def sp_exec is_obj_def O_RDONLY_def O_WRONLY_def O_NONBLOCK_def
        EXIT_FAILURE_def EXIT_SUCCESS_def split: if_splits)

lemma sp_log_inv_init: "sp_log_inv sp_init"
  by (simp add: sp_log_inv_def sp_init_def)

lemma sp_log_inv_step:
  assumes "sp_inv s" "sp_log_inv s"
  shows "sp_log_inv (step_sp ev s)"
proof -
  from assms(1) have h: "sigint s = Sig_handler \<Longrightarrow> sp_pc s = SP_poll \<or> sp_pc s = SP_read"
    by (simp add: sp_inv_def)
  show ?thesis
    using assms(2) h
    by (cases ev s rule: step_sp_cases)
       (auto simp: sp_log_inv_def sp_exec sp_setup_calls_def split: if_splits)
qed

lemma sp_reachable:
  "sp_inv (run_sp evs sp_init) \<and> sp_log_inv (run_sp evs sp_init)"
proof (induction evs rule: rev_induct)
  case Nil
  show ?case by (simp add: sp_inv_init sp_log_inv_init)
next
  case (snoc ev evs)
  then show ?case
    by (simp add: run_sp_snoc sp_inv_step sp_log_inv_step)
qed

section \<open>Symbolic execution of the signalfd program\<close>

lemma main_sigprocmask_ok:
  "main_sigprocmask (Ret n) s =
     s\<lparr>syslog := syslog s @ [(Sys_sigprocmask, n)], sf_pc := SF_signalfd,
       mask_sig := {SIGINT}, blocked := {SIGINT}\<rparr>"
  by (simp add: main_sigprocmask_def sys_sigprocmask_def leave_def Let_def)

lemma main_sigprocmask_err:
  "main_sigprocmask (Fail e) s =
     s\<lparr>errno := e, syslog := syslog s @ [(Sys_sigprocmask, - 1)], sf_pc := SF_signalfd,
       mask_sig := {SIGINT}\<rparr>"
  by (simp add: main_sigprocmask_def sys_sigprocmask_def leave_def Let_def)

lemma main_signalfd_ok:
  "main_signalfd (Ret n) s =
     s\<lparr>fdtab := (fdtab s)
            (n \<mapsto> \<lparr>obj = SignalFd, fd_flags = 0, fl_flags = O_RDWR OR (SFD_NONBLOCK AND O_NONBLOCK)\<rparr>),
       syslog := syslog s @ [(Sys_signalfd (- 1) SFD_NONBLOCK, n)],
       sf_pc := SF_poll, signal_fd := n, sfd_mask := mask_sig s\<rparr>"
  by (simp add: main_signalfd_def sys_signalfd_def leave_def ret_of_def)

lemma main_signalfd_err:
  "main_signalfd (Fail e) s =
     s\<lparr>errno := e, syslog := syslog s @ [(Sys_signalfd (- 1) SFD_NONBLOCK, - 1)],
       sf_pc := SF_poll, signal_fd := - 1\<rparr>"
  by (simp add: main_signalfd_def sys_signalfd_def leave_def ret_of_def)

lemma main_poll_sf_ready:
  "0 < n \<Longrightarrow> main_poll_sf (Ret n) s =
     s\<lparr>syslog := syslog s @ [(Sys_poll (signal_fd s) POLLIN 5000, n)], sf_pc := SF_read\<rparr>"
  by (simp add: main_poll_sf_def sys_poll_def leave_def ret_of_def)

lemma main_poll_sf_timeout:
  "n \<le> 0 \<Longrightarrow> main_poll_sf (Ret n) s =
     s\<lparr>status := Exited 0, syslog := syslog s @ [(Sys_poll (signal_fd s) POLLIN 5000, n)]\<rparr>"
  by (simp add: main_poll_sf_def sys_poll_def leave_def ret_of_def exit_def)

lemma main_poll_sf_err:
  "main_poll_sf (Fail e) s =
     s\<lparr>status := Exited 0, errno := e,
       syslog := syslog s @ [(Sys_poll (signal_fd s) POLLIN 5000, - 1)]\<rparr>"
  by (simp add: main_poll_sf_def sys_poll_def leave_def ret_of_def exit_def)

lemma sint_SIGINT: "sint (word_of_int SIGINT :: 32 word) = 2"
  by (simp add: SIGINT_def)

lemma main_read_sf_ok:
  "main_read_sf f (Ret 128) s =
     s\<lparr>stdout := stdout s @ [''Received signal 2 ('' @ f 2 @ '')'' @ [newline]],
       syslog := syslog s @ [(Sys_read (signal_fd s) 128, 128)],
       sf_pc := SF_poll, pending := False\<rparr>"
  by (simp add: main_read_sf_def handle_signal_sf_def sys_read_signalfd_def leave_def ret_of_def
      printf_def sizeof_siginfo_def pending_info_def sint_SIGINT show_int_def)

lemma main_read_sf_err:
  "main_read_sf f (Fail e) s =
     s\<lparr>status := Exited 1, errno := e, stderr := stderr s @ [(''read'', e)],
       syslog := syslog s @ [(Sys_read (signal_fd s) 128, - 1)], sf_pc := SF_poll\<rparr>"
  by (simp add: main_read_sf_def handle_signal_sf_def sys_read_signalfd_def leave_def ret_of_def
      exit_def perror_def sizeof_siginfo_def)

lemma generate_sigint_blocked:
  "SIGINT \<in> blocked s \<Longrightarrow> generate_sigint s =
     s\<lparr>pending := True, sent := Suc (sent s), merged := merged s + (if pending s then 1 else 0)\<rparr>"
  by (simp add: generate_sigint_def)

lemma generate_sigint_unblocked:
  "SIGINT \<notin> blocked s \<Longrightarrow> generate_sigint s = s\<lparr>status := Killed SIGINT\<rparr>"
  by (simp add: generate_sigint_def)

lemmas sf_exec =
  main_sigprocmask_ok main_sigprocmask_err main_signalfd_ok main_signalfd_err
  main_poll_sf_ready main_poll_sf_timeout main_poll_sf_err main_read_sf_ok main_read_sf_err
  generate_sigint_blocked generate_sigint_unblocked

text \<open>The steps of the machine, one case for each system call and each kind of answer.\<close>

lemma step_sf_cases [case_names idle mask_ok mask_err sfd_ok sfd_err poll_ready poll_timeout
    poll_err read_ok read_err sig_pending sig_killed]:
  obtains
    (idle) "step_sf f ev s = s"
  | (mask_ok) "ev = Sf_sys (Ret 0)" "status s = Running" "sf_pc s = SF_sigprocmask"
      "step_sf f ev s = main_sigprocmask (Ret 0) s"
  | (mask_err) e where "ev = Sf_sys (Fail e)" "status s = Running" "sf_pc s = SF_sigprocmask"
      "step_sf f ev s = main_sigprocmask (Fail e) s"
  | (sfd_ok) n where "ev = Sf_sys (Ret n)" "status s = Running" "sf_pc s = SF_signalfd"
      "0 \<le> n" "fdtab s n = None" "step_sf f ev s = main_signalfd (Ret n) s"
  | (sfd_err) e where "ev = Sf_sys (Fail e)" "status s = Running" "sf_pc s = SF_signalfd"
      "step_sf f ev s = main_signalfd (Fail e) s"
  | (poll_ready) "ev = Sf_sys (Ret 1)" "status s = Running" "sf_pc s = SF_poll"
      "sfd_readable s (signal_fd s)" "step_sf f ev s = main_poll_sf (Ret 1) s"
  | (poll_timeout) "ev = Sf_sys (Ret 0)" "status s = Running" "sf_pc s = SF_poll"
      "\<not> sfd_readable s (signal_fd s)" "step_sf f ev s = main_poll_sf (Ret 0) s"
  | (poll_err) e where "ev = Sf_sys (Fail e)" "status s = Running" "sf_pc s = SF_poll"
      "step_sf f ev s = main_poll_sf (Fail e) s"
  | (read_ok) "ev = Sf_sys (Ret 128)" "status s = Running" "sf_pc s = SF_read"
      "sfd_readable s (signal_fd s)" "step_sf f ev s = main_read_sf f (Ret 128) s"
  | (read_err) e where "ev = Sf_sys (Fail e)" "status s = Running" "sf_pc s = SF_read"
      "step_sf f ev s = main_read_sf f (Fail e) s"
  | (sig_pending) "ev = Sf_sigint" "status s = Running" "SIGINT \<in> blocked s"
      "step_sf f ev s = generate_sigint s"
  | (sig_killed) "ev = Sf_sigint" "status s = Running" "SIGINT \<notin> blocked s"
      "step_sf f ev s = generate_sigint s"
proof (cases "status s = Running \<and> enabled_sf ev s")
  case False
  then have "step_sf f ev s = s" unfolding step_sf_def by (simp only: if_False)
  then show thesis by (rule idle)
next
  case True
  then have run: "status s = Running" and en: "enabled_sf ev s"
    and st: "step_sf f ev s = exec_sf f ev s"
    by (simp_all add: step_sf_def)
  show thesis
  proof (cases ev)
    case Sf_sigint
    with st have ex: "step_sf f ev s = generate_sigint s" by (simp add: exec_sf_def)
    show thesis
    proof (cases "SIGINT \<in> blocked s")
      case True
      with Sf_sigint run ex show thesis by (intro sig_pending) simp_all
    next
      case False
      with Sf_sigint run ex show thesis by (intro sig_killed) simp_all
    qed
  next
    case (Sf_sys r)
    show thesis
    proof (cases "sf_pc s")
      case SF_sigprocmask
      with st Sf_sys have ex: "step_sf f ev s = main_sigprocmask r s" by (simp add: exec_sf_def)
      from en Sf_sys SF_sigprocmask have fp: "sigprocmask_possible r"
        by (simp add: enabled_sf_def)
      show thesis
      proof (cases r)
        case (Ret n)
        with fp have "n = 0" by (simp add: sigprocmask_possible_def)
        with Ret Sf_sys run SF_sigprocmask ex show thesis by (intro mask_ok) simp_all
      next
        case (Fail e)
        with Sf_sys run SF_sigprocmask ex show thesis by (intro mask_err[of e]) simp_all
      qed
    next
      case SF_signalfd
      with st Sf_sys have ex: "step_sf f ev s = main_signalfd r s" by (simp add: exec_sf_def)
      from en Sf_sys SF_signalfd have fp: "signalfd_possible r s"
        by (simp add: enabled_sf_def)
      show thesis
      proof (cases r)
        case (Ret n)
        with fp have "0 \<le> n" "fdtab s n = None" by (simp_all add: signalfd_possible_def)
        with Ret Sf_sys run SF_signalfd ex show thesis by (intro sfd_ok[of n]) simp_all
      next
        case (Fail e)
        with Sf_sys run SF_signalfd ex show thesis by (intro sfd_err[of e]) simp_all
      qed
    next
      case SF_poll
      with st Sf_sys have ex: "step_sf f ev s = main_poll_sf r s" by (simp add: exec_sf_def)
      from en Sf_sys SF_poll have fp: "poll_possible_sf (signal_fd s) r s"
        by (simp add: enabled_sf_def)
      show thesis
      proof (cases r)
        case (Ret n)
        show thesis
        proof (cases "sfd_readable s (signal_fd s)")
          case True
          with fp Ret have "n = 1" by (simp add: poll_possible_sf_def)
          with True Ret Sf_sys run SF_poll ex show thesis by (intro poll_ready) simp_all
        next
          case False
          with fp Ret have "n = 0" by (simp add: poll_possible_sf_def)
          with False Ret Sf_sys run SF_poll ex show thesis by (intro poll_timeout) simp_all
        qed
      next
        case (Fail e)
        with Sf_sys run SF_poll ex show thesis by (intro poll_err[of e]) simp_all
      qed
    next
      case SF_read
      with st Sf_sys have ex: "step_sf f ev s = main_read_sf f r s" by (simp add: exec_sf_def)
      from en Sf_sys SF_read have fp: "read_possible_sf (signal_fd s) sizeof_siginfo r s"
        by (simp add: enabled_sf_def)
      show thesis
      proof (cases r)
        case (Ret n)
        with fp have "sfd_readable s (signal_fd s)" "n = 128"
          by (simp_all add: read_possible_sf_def sizeof_siginfo_def)
        with Ret Sf_sys run SF_read ex show thesis by (intro read_ok) simp_all
      next
        case (Fail e)
        with Sf_sys run SF_read ex show thesis by (intro read_err[of e]) simp_all
      qed
    qed
  qed
qed

section \<open>Invariants of the signalfd program\<close>

lemma sf_inv_init: "sf_inv sf_init"
  by (simp add: sf_inv_def sf_init_def std_fds_def notifications_sf_def polls_def)

lemma sf_inv_step:
  assumes "sf_inv s"
  shows "sf_inv (step_sf f ev s)"
proof -
  from assms have neg: "fdtab s (- 1) = None"
    by (cases "fdtab s (- 1)") (auto simp: sf_inv_def)
  show ?thesis
    using assms neg
    by (cases f ev s rule: step_sf_cases)
       (auto simp: sf_inv_def sf_exec is_obj_def sfd_readable_def notifications_sf_def polls_def
          is_poll_def split: if_splits)
qed

lemma run_sf_snoc: "run_sf f (evs @ [ev]) s = step_sf f ev (run_sf f evs s)"
  by (induction evs arbitrary: s) simp_all

lemma step_sf_ended: "status s \<noteq> Running \<Longrightarrow> step_sf f ev s = s"
  by (simp add: step_sf_def)

lemma run_sf_ended: "status s \<noteq> Running \<Longrightarrow> run_sf f evs s = s"
  by (induction evs) (simp_all add: step_sf_ended)

lemma sf_read_inv_init: "sf_read_inv sf_init"
  by (simp add: sf_read_inv_def sf_init_def)

lemma sf_read_inv_step:
  assumes "sf_read_inv s"
  shows "sf_read_inv (step_sf f ev s)"
  using assms
  by (cases f ev s rule: step_sf_cases)
     (auto simp: sf_read_inv_def sf_exec split: if_splits)

lemma sf_reachable: "sf_inv (run_sf f evs sf_init) \<and> sf_read_inv (run_sf f evs sf_init)"
proof (induction evs rule: rev_induct)
  case Nil
  show ?case by (simp add: sf_inv_init sf_read_inv_init)
next
  case (snoc ev evs)
  then show ?case by (simp add: run_sf_snoc sf_inv_step sf_read_inv_step)
qed

section \<open>The finer machines: steps, runs and invariants\<close>

subsection \<open>The self-pipe program\<close>



















subsection \<open>Invariants of the self-pipe program\<close>





























subsection \<open>The signalfd program\<close>


lemma run_sff_append: "run_sff f (evs @ evs') t = run_sff f evs' (run_sff f evs t)"
  by (induction evs arbitrary: t) simp_all

lemma step_sff_ended: "status (proc_sf t) \<noteq> Running \<Longrightarrow> step_sff f ev t = t"
  by (simp add: step_sff_def)

lemma call_sf_keeps:
  "status (snd (call_sf r s)) = status s"
  "stdout (snd (call_sf r s)) = stdout s"
  "sf_pc (snd (call_sf r s)) = sf_pc s"
  "signal_fd (snd (call_sf r s)) = signal_fd s"
  "sent (snd (call_sf r s)) = sent s"
  "merged (snd (call_sf r s)) = merged s"
  "fst (call_sf r s) = ret_of r"
  by (cases "sf_pc s"; cases r;
      simp add: call_sf_def sys_sigprocmask_def sys_signalfd_def sys_poll_def
        sys_read_signalfd_def leave_def Let_def ret_of_def)+

lemma exec_sf_sys_split:
  "exec_sf f (Sf_sys r) s = resume_sf f (fst (call_sf r s)) (pending_info s) (snd (call_sf r s))"
  by (cases "sf_pc s"; cases r)
     (simp_all add: exec_sf_def resume_sf_def call_sf_def main_sigprocmask_def main_signalfd_def
        main_poll_sf_def main_read_sf_def handle_signal_sf_def sys_sigprocmask_def
        sys_signalfd_def sys_poll_def sys_read_signalfd_def leave_def Let_def ret_of_def)

lemma step_sff_sys:
  "status (proc_sf t) = Running \<Longrightarrow> returned_sf t = None
   \<Longrightarrow> enabled_sf (Sf_sys r) (proc_sf t) \<Longrightarrow>
   step_sff f (Ff_sys r) t
     = t\<lparr>proc_sf := snd (call_sf r (proc_sf t)), returned_sf := Some (ret_of r)\<rparr>"
  using call_sf_keeps(7)[of r "proc_sf t"]
  by (auto simp: step_sff_def enabled_sff_def exec_sff_def split: prod.splits)

lemma step_sff_resume:
  "status (proc_sf t) = Running \<Longrightarrow> returned_sf t = Some ret \<Longrightarrow>
   step_sff f Ff_resume t
     = t\<lparr>proc_sf := resume_sf f ret (pending_info (proc_sf t)) (proc_sf t),
         returned_sf := None\<rparr>"
  by (simp add: step_sff_def enabled_sff_def exec_sff_def)

lemma step_sff_send:
  "status (proc_sf t) = Running \<Longrightarrow>
   step_sff f Ff_send t
     = t\<lparr>proc_sf := generate_sigint (proc_sf t), sent_sf := Suc (sent_sf t)\<rparr>"
  by (simp add: step_sff_def enabled_sff_def exec_sff_def)


text \<open>Every run of the machine of the first section is a run of this one.\<close>

lemma refine_sf_step:
  assumes "returned_sf t = None"
  shows "proc_sf (run_sff f (refine_sf ev) t) = step_sf f ev (proc_sf t)
     \<and> returned_sf (run_sff f (refine_sf ev) t) = None"
proof (cases "status (proc_sf t) = Running")
  case False
  then show ?thesis using assms
    by (cases ev) (simp_all add: refine_sf_def step_sff_ended step_sf_ended)
next
  case True
  show ?thesis
  proof (cases ev)
    case (Sf_sys r)
    show ?thesis
    proof (cases "enabled_sf (Sf_sys r) (proc_sf t)")
      case False
      with True assms Sf_sys show ?thesis
        by (simp add: refine_sf_def step_sff_def step_sf_def enabled_sff_def exec_sff_def)
    next
      case en: True
      with Sf_sys True assms show ?thesis
        by (simp add: refine_sf_def step_sff_sys step_sff_resume call_sf_keeps step_sf_def
            exec_sf_sys_split pending_info_def)
    qed
  next
    case Sf_sigint
    with True assms show ?thesis
      by (simp add: refine_sf_def step_sff_send step_sf_def enabled_sf_def exec_sf_def)
  qed
qed

lemma refine_sf_run:
  "proc_sf (run_sff f (concat (map refine_sf evs)) sff_init) = run_sf f evs sf_init
   \<and> returned_sf (run_sff f (concat (map refine_sf evs)) sff_init) = None"
proof (induction evs rule: rev_induct)
  case Nil
  show ?case by (simp add: sff_init_def)
next
  case (snoc ev evs)
  then show ?case
    using refine_sf_step[of "run_sff f (concat (map refine_sf evs)) sff_init" f ev]
    by (simp add: run_sff_append run_sf_snoc)
qed


















section \<open>Numbers and characters\<close>

lemma ssize_eq_sizeof:
  assumes "- (2 ^ 63) \<le> n" "n < 2 ^ 63"
  shows "(word_of_int n :: 64 word) = 128 \<longleftrightarrow> n = 128"
proof
  assume h: "(word_of_int n :: 64 word) = 128"
  have "sint (word_of_int n :: 64 word) = n"
    using assms by (simp add: signed_of_int signed_take_bit_int_eq_self)
  with h show "n = 128" by simp
next
  assume "n = 128"
  then show "(word_of_int n :: 64 word) = 128" by simp
qed

lemma digits_chars: "set (digits n) \<subseteq> set ''0123456789''"
proof (induction n rule: digits.induct)
  case (1 n)
  have m: "n mod 10 < 10" by simp
  have d: "\<And>k. k < 10 \<Longrightarrow> ''0123456789'' ! k \<in> set ''0123456789''"
    by (rule nth_mem) simp
  show ?case
  proof (cases "n < 10")
    case True
    with d[of n] show ?thesis by (subst digits.simps) simp
  next
    case False
    with 1 d[OF m] show ?thesis by (subst digits.simps) simp
  qed
qed

lemma newline_not_in_show_int: "newline \<notin> set (show_int i)"
proof -
  have "newline \<notin> set ''0123456789''" by (simp add: newline_def)
  with digits_chars have "\<And>n. newline \<notin> set (digits n)" by blast
  then show ?thesis by (simp add: show_int_def newline_def)
qed

section \<open>The claims\<close>

lemma setfl_sets_nonblock:
  "(x AND NOT SETFL_MASK OR (O_NONBLOCK AND SETFL_MASK)) AND O_NONBLOCK = O_NONBLOCK"
  by (simp add: SETFL_MASK_def O_NONBLOCK_def O_APPEND_def O_ASYNC_def O_DIRECT_def
      O_NOATIME_def bit_eq_iff bit_simps)

text \<open>
  C1. The claim is that after setup the read end of the pipe has the non-blocking status
  flag. The program calls \<^verbatim>\<open>fcntl(fd, F_SETFD, O_NONBLOCK)\<close>, which replaces the descriptor
  flags (and clears them, \<^verbatim>\<open>O_NONBLOCK\<close> having no bit in common with \<^verbatim>\<open>FD_CLOEXEC\<close>) and
  leaves the status flags alone: in no state the program reaches does any descriptor have
  \<^verbatim>\<open>O_NONBLOCK\<close> among its status flags. \<^verbatim>\<open>F_SETFL\<close> with the same argument would set it.
\<close>

theorem selfpipe_never_sets_nonblock:
  "(fdtab (run_sp evs sp_init) fd = Some d \<longrightarrow> fl_flags d AND O_NONBLOCK = 0)
   \<and> fcntl_flags F_SETFD O_NONBLOCK d = d\<lparr>fd_flags := 0\<rparr>
   \<and> fl_flags (fcntl_flags F_SETFL O_NONBLOCK d) AND O_NONBLOCK = O_NONBLOCK
   \<and> O_NONBLOCK \<noteq> 0"
proof -
  have a: "fdtab (run_sp evs sp_init) fd = Some d \<longrightarrow> fl_flags d AND O_NONBLOCK = 0"
    using sp_reachable[of evs] by (simp add: sp_inv_def)
  have b: "fcntl_flags F_SETFD O_NONBLOCK d = d\<lparr>fd_flags := 0\<rparr>"
    by (simp add: fcntl_flags_def O_NONBLOCK_def FD_CLOEXEC_def)
  have c: "fl_flags (fcntl_flags F_SETFL O_NONBLOCK d) AND O_NONBLOCK = O_NONBLOCK"
    by (simp add: fcntl_flags_def F_SETFL_def F_SETFD_def setfl_sets_nonblock)
  have d: "O_NONBLOCK \<noteq> 0" by (simp add: O_NONBLOCK_def)
  from a b c d show ?thesis by blast
qed

theorem selfpipe_never_sets_nonblock_witness:
  "fdtab (run_sp sp_setup_ok sp_init) 3 = Some \<lparr>obj = PipeRd, fd_flags = 0, fl_flags = 0\<rparr>
   \<and> pipefds (run_sp sp_setup_ok sp_init) = (3, 4)
   \<and> sp_pc (run_sp sp_setup_ok sp_init) = SP_poll
   \<and> fl_flags \<lparr>obj = PipeRd, fd_flags = 0, fl_flags = 0\<rparr> AND O_NONBLOCK = 0"
proof -
  have h: "fdtab (run_sp sp_setup_ok sp_init) 3 = Some \<lparr>obj = PipeRd, fd_flags = 0, fl_flags = 0\<rparr>
      \<and> pipefds (run_sp sp_setup_ok sp_init) = (3, 4)
      \<and> sp_pc (run_sp sp_setup_ok sp_init) = SP_poll"
    by code_simp
  from selfpipe_never_sets_nonblock[of sp_setup_ok 3 "\<lparr>obj = PipeRd, fd_flags = 0, fl_flags = 0\<rparr>"] h
  show ?thesis by simp
qed

lemma sp_running_quiet: "sp_inv s \<Longrightarrow> status s = Running \<Longrightarrow> stderr s = []"
  by (simp add: sp_inv_def)

lemma sf_running_quiet: "sf_inv s \<Longrightarrow> status s = Running \<Longrightarrow> stderr s = []"
  by (simp add: sf_inv_def)

lemma pipe_failure_aborts:
  assumes "sp_inv s" "sp_log_inv s" "status s = Running" "sp_pc s = SP_pipe"
  shows "status (step_sp (Sp_pipe (Pipe_err e)) s) = Exited EXIT_FAILURE
     \<and> stderr (step_sp (Sp_pipe (Pipe_err e)) s) = [(''pipe'', e)]
     \<and> polls (step_sp (Sp_pipe (Pipe_err e)) s) = 0"
proof -
  from assms have lg: "syslog s = []" by (simp add: sp_log_inv_def)
  from assms have st: "step_sp (Sp_pipe (Pipe_err e)) s = main_pipe (Pipe_err e) s"
    by (simp add: step_sp_def enabled_sp_def exec_sp_def pipe_possible_def)
  from st lg sp_running_quiet[OF assms(1,3)] show ?thesis
    by (simp add: main_pipe_err polls_def is_poll_def)
qed

lemma fcntl0_failure_aborts:
  assumes "sp_inv s" "sp_log_inv s" "status s = Running" "sp_pc s = SP_fcntl0"
  shows "status (step_sp (Sp_sys (Fail e)) s) = Exited EXIT_FAILURE
     \<and> stderr (step_sp (Sp_sys (Fail e)) s) = [(''fcntl'', e)]
     \<and> polls (step_sp (Sp_sys (Fail e)) s) = 0"
proof -
  from assms have lg: "syslog s = take 1 (sp_setup_calls (pipefds s))"
    by (simp add: sp_log_inv_def)
  from assms have st: "step_sp (Sp_sys (Fail e)) s = main_fcntl0 (Fail e) s"
    by (simp add: step_sp_def enabled_sp_def exec_sp_def fcntl_possible_def)
  from st lg sp_running_quiet[OF assms(1,3)] show ?thesis
    by (simp add: main_fcntl0_err polls_def is_poll_def sp_setup_calls_def)
qed

lemma fcntl1_failure_aborts:
  assumes "sp_inv s" "sp_log_inv s" "status s = Running" "sp_pc s = SP_fcntl1"
  shows "status (step_sp (Sp_sys (Fail e)) s) = Exited EXIT_FAILURE
     \<and> stderr (step_sp (Sp_sys (Fail e)) s) = [(''fcntl'', e)]
     \<and> polls (step_sp (Sp_sys (Fail e)) s) = 0"
proof -
  from assms have lg: "syslog s = take 2 (sp_setup_calls (pipefds s))"
    by (simp add: sp_log_inv_def)
  from assms have st: "step_sp (Sp_sys (Fail e)) s = main_fcntl1 (Fail e) s"
    by (simp add: step_sp_def enabled_sp_def exec_sp_def fcntl_possible_def)
  from st lg sp_running_quiet[OF assms(1,3)] show ?thesis
    by (simp add: main_fcntl1_err polls_def is_poll_def sp_setup_calls_def)
qed

lemma sigprocmask_failure_goes_on:
  assumes "sf_inv s" "status s = Running" "sf_pc s = SF_sigprocmask"
  shows "status (step_sf f (Sf_sys (Fail e)) s) = Running
     \<and> stderr (step_sf f (Sf_sys (Fail e)) s) = []
     \<and> stdout (step_sf f (Sf_sys (Fail e)) s) = stdout s
     \<and> sf_pc (step_sf f (Sf_sys (Fail e)) s) = SF_signalfd"
proof -
  from assms have st: "step_sf f (Sf_sys (Fail e)) s = main_sigprocmask (Fail e) s"
    by (simp add: step_sf_def enabled_sf_def exec_sf_def sigprocmask_possible_def)
  from st assms(2) sf_running_quiet[OF assms(1,2)] show ?thesis
    by (simp add: main_sigprocmask_err)
qed

lemma signalfd_failure_goes_on:
  assumes "sf_inv s" "status s = Running" "sf_pc s = SF_signalfd"
  shows "status (step_sf f (Sf_sys (Fail e)) s) = Running
     \<and> stderr (step_sf f (Sf_sys (Fail e)) s) = []
     \<and> stdout (step_sf f (Sf_sys (Fail e)) s) = stdout s
     \<and> sf_pc (step_sf f (Sf_sys (Fail e)) s) = SF_poll
     \<and> signal_fd (step_sf f (Sf_sys (Fail e)) s) = - 1"
proof -
  from assms have st: "step_sf f (Sf_sys (Fail e)) s = main_signalfd (Fail e) s"
    by (simp add: step_sf_def enabled_sf_def exec_sf_def signalfd_possible_def)
  from st assms(2) sf_running_quiet[OF assms(1,2)] show ?thesis
    by (simp add: main_signalfd_err)
qed

text \<open>
  C2, as amended. In the self-pipe program a \<^verbatim>\<open>pipe\<close> or \<^verbatim>\<open>fcntl\<close> that fails ends the
  process at once with \<^verbatim>\<open>EXIT_FAILURE\<close>, which is not 0, after a diagnostic that names the
  call, and no \<^verbatim>\<open>poll\<close> has been issued. The signalfd program inspects the result of neither
  \<^verbatim>\<open>sigprocmask\<close> nor \<^verbatim>\<open>signalfd\<close>: after a failure of either it runs on, nothing is
  printed, and a failed \<^verbatim>\<open>signalfd\<close> leaves it about to poll the descriptor \<open>-1\<close>.
\<close>

theorem setup_failures:
  "(status (run_sp evs sp_init) = Running \<and> sp_pc (run_sp evs sp_init) = SP_pipe \<longrightarrow>
      status (step_sp (Sp_pipe (Pipe_err e)) (run_sp evs sp_init)) = Exited EXIT_FAILURE
      \<and> stderr (step_sp (Sp_pipe (Pipe_err e)) (run_sp evs sp_init)) = [(''pipe'', e)]
      \<and> polls (step_sp (Sp_pipe (Pipe_err e)) (run_sp evs sp_init)) = 0)
   \<and> (status (run_sp evs sp_init) = Running
        \<and> (sp_pc (run_sp evs sp_init) = SP_fcntl0 \<or> sp_pc (run_sp evs sp_init) = SP_fcntl1) \<longrightarrow>
      status (step_sp (Sp_sys (Fail e)) (run_sp evs sp_init)) = Exited EXIT_FAILURE
      \<and> stderr (step_sp (Sp_sys (Fail e)) (run_sp evs sp_init)) = [(''fcntl'', e)]
      \<and> polls (step_sp (Sp_sys (Fail e)) (run_sp evs sp_init)) = 0)
   \<and> EXIT_FAILURE \<noteq> 0
   \<and> (status (run_sf f evs' sf_init) = Running
        \<and> (sf_pc (run_sf f evs' sf_init) = SF_sigprocmask
            \<or> sf_pc (run_sf f evs' sf_init) = SF_signalfd) \<longrightarrow>
      status (step_sf f (Sf_sys (Fail e)) (run_sf f evs' sf_init)) = Running
      \<and> stderr (step_sf f (Sf_sys (Fail e)) (run_sf f evs' sf_init)) = []
      \<and> stdout (step_sf f (Sf_sys (Fail e)) (run_sf f evs' sf_init))
          = stdout (run_sf f evs' sf_init)
      \<and> (sf_pc (run_sf f evs' sf_init) = SF_signalfd \<longrightarrow>
           sf_pc (step_sf f (Sf_sys (Fail e)) (run_sf f evs' sf_init)) = SF_poll
           \<and> signal_fd (step_sf f (Sf_sys (Fail e)) (run_sf f evs' sf_init)) = - 1))"
proof -
  define s where "s = run_sp evs sp_init"
  define t where "t = run_sf f evs' sf_init"
  have inv: "sp_inv s" "sp_log_inv s" using sp_reachable[of evs] by (simp_all add: s_def)
  have invt: "sf_inv t" using sf_reachable[of f evs'] by (simp add: t_def)
  have c: "EXIT_FAILURE \<noteq> 0" by (simp add: EXIT_FAILURE_def)
  have d: "sf_pc t = SF_signalfd \<Longrightarrow> sf_pc t \<noteq> SF_sigprocmask" by simp
  from pipe_failure_aborts[OF inv, of e] fcntl0_failure_aborts[OF inv, of e]
    fcntl1_failure_aborts[OF inv, of e] sigprocmask_failure_goes_on[OF invt, of f e]
    signalfd_failure_goes_on[OF invt, of f e] c d
  have "(status s = Running \<and> sp_pc s = SP_pipe \<longrightarrow>
      status (step_sp (Sp_pipe (Pipe_err e)) s) = Exited EXIT_FAILURE
      \<and> stderr (step_sp (Sp_pipe (Pipe_err e)) s) = [(''pipe'', e)]
      \<and> polls (step_sp (Sp_pipe (Pipe_err e)) s) = 0)
   \<and> (status s = Running \<and> (sp_pc s = SP_fcntl0 \<or> sp_pc s = SP_fcntl1) \<longrightarrow>
      status (step_sp (Sp_sys (Fail e)) s) = Exited EXIT_FAILURE
      \<and> stderr (step_sp (Sp_sys (Fail e)) s) = [(''fcntl'', e)]
      \<and> polls (step_sp (Sp_sys (Fail e)) s) = 0)
   \<and> EXIT_FAILURE \<noteq> 0
   \<and> (status t = Running \<and> (sf_pc t = SF_sigprocmask \<or> sf_pc t = SF_signalfd) \<longrightarrow>
      status (step_sf f (Sf_sys (Fail e)) t) = Running
      \<and> stderr (step_sf f (Sf_sys (Fail e)) t) = []
      \<and> stdout (step_sf f (Sf_sys (Fail e)) t) = stdout t
      \<and> (sf_pc t = SF_signalfd \<longrightarrow>
           sf_pc (step_sf f (Sf_sys (Fail e)) t) = SF_poll
           \<and> signal_fd (step_sf f (Sf_sys (Fail e)) t) = - 1))"
    by blast
  then show ?thesis unfolding s_def t_def .
qed

theorem setup_failures_witness:
  "status (run_sp [] sp_init) = Running \<and> sp_pc (run_sp [] sp_init) = SP_pipe
   \<and> status (step_sp (Sp_pipe (Pipe_err 24)) (run_sp [] sp_init)) = Exited EXIT_FAILURE
   \<and> stderr (step_sp (Sp_pipe (Pipe_err 24)) (run_sp [] sp_init)) = [(''pipe'', 24)]
   \<and> status (run_sp [Sp_pipe (Pipe_ok 3 4)] sp_init) = Running
   \<and> sp_pc (run_sp [Sp_pipe (Pipe_ok 3 4)] sp_init) = SP_fcntl0
   \<and> status (step_sp (Sp_sys (Fail 9)) (run_sp [Sp_pipe (Pipe_ok 3 4)] sp_init))
       = Exited EXIT_FAILURE
   \<and> stderr (step_sp (Sp_sys (Fail 9)) (run_sp [Sp_pipe (Pipe_ok 3 4)] sp_init))
       = [(''fcntl'', 9)]
   \<and> polls (step_sp (Sp_sys (Fail 9)) (run_sp [Sp_pipe (Pipe_ok 3 4)] sp_init)) = 0
   \<and> status (run_sf strsignal_glibc [Sf_sys (Ret 0)] sf_init) = Running
   \<and> sf_pc (run_sf strsignal_glibc [Sf_sys (Ret 0)] sf_init) = SF_signalfd
   \<and> status (step_sf strsignal_glibc (Sf_sys (Fail 24)) (run_sf strsignal_glibc [Sf_sys (Ret 0)] sf_init))
       = Running
   \<and> signal_fd (step_sf strsignal_glibc (Sf_sys (Fail 24)) (run_sf strsignal_glibc [Sf_sys (Ret 0)] sf_init))
       = - 1"
proof -
  have h1: "status (run_sp [] sp_init) = Running \<and> sp_pc (run_sp [] sp_init) = SP_pipe"
    by code_simp
  have h2: "status (run_sp [Sp_pipe (Pipe_ok 3 4)] sp_init) = Running
      \<and> sp_pc (run_sp [Sp_pipe (Pipe_ok 3 4)] sp_init) = SP_fcntl0"
    by code_simp
  have h3: "status (run_sf strsignal_glibc [Sf_sys (Ret 0)] sf_init) = Running
      \<and> sf_pc (run_sf strsignal_glibc [Sf_sys (Ret 0)] sf_init) = SF_signalfd"
    by code_simp
  from setup_failures[of "[]" 24 strsignal_glibc "[Sf_sys (Ret 0)]"]
       setup_failures[of "[Sp_pipe (Pipe_ok 3 4)]" 9 strsignal_glibc "[Sf_sys (Ret 0)]"]
       setup_failures[of "[]" 24 strsignal_glibc "[Sf_sys (Ret 0)]"]
       h1 h2 h3
  show ?thesis by simp
qed

text \<open>
  C2 as stated, that every failing setup call of either program ends the process with a
  diagnostic before any wait, fails for the signalfd program: when \<^verbatim>\<open>signalfd\<close> fails with
  \<^verbatim>\<open>EMFILE\<close> (24) the program polls the descriptor \<open>-1\<close>, and after the timeout it ends
  with status 0, having printed no diagnostic.
\<close>

theorem signalfd_failure_not_fatal:
  "syslog (run_sf strsignal_glibc [Sf_sys (Ret 0), Sf_sys (Fail 24), Sf_sys (Ret 0)] sf_init)
     = [(Sys_sigprocmask, 0), (Sys_signalfd (- 1) SFD_NONBLOCK, - 1),
        (Sys_poll (- 1) POLLIN 5000, 0)]
   \<and> polls (run_sf strsignal_glibc [Sf_sys (Ret 0), Sf_sys (Fail 24), Sf_sys (Ret 0)] sf_init) = 1
   \<and> stderr (run_sf strsignal_glibc [Sf_sys (Ret 0), Sf_sys (Fail 24), Sf_sys (Ret 0)] sf_init) = []
   \<and> status (run_sf strsignal_glibc [Sf_sys (Ret 0), Sf_sys (Fail 24), Sf_sys (Ret 0)] sf_init)
       = Exited 0"
  by code_simp

text \<open>
  C3. In the loop of the self-pipe program a \<^verbatim>\<open>poll\<close> that returns 0 prints the timeout
  message and ends the process with \<^verbatim>\<open>EXIT_SUCCESS\<close>; one that fails with \<^verbatim>\<open>EINTR\<close> prints
  nothing, ends nothing and is issued again; one that fails with another error ends the
  process with \<^verbatim>\<open>EXIT_FAILURE\<close> after the diagnostic \<^verbatim>\<open>poll\<close>; a positive result goes on to
  \<^verbatim>\<open>handle_signal(read_fd)\<close>, after which the loop polls again. The kernel answers a
  \<^verbatim>\<open>poll\<close> on one descriptor with 0, with 1, or with a failure, whose result is \<open>-1\<close>.
\<close>

theorem poll_outcomes_sp:
  "status (main_poll (Ret 0) s) = Exited EXIT_SUCCESS
   \<and> stdout (main_poll (Ret 0) s) = stdout s @ [''Poll timed out without any signals'' @ [newline]]
   \<and> stderr (main_poll (Ret 0) s) = stderr s
   \<and> status (main_poll (Fail EINTR) s) = status s
   \<and> stdout (main_poll (Fail EINTR) s) = stdout s
   \<and> stderr (main_poll (Fail EINTR) s) = stderr s
   \<and> sp_pc (main_poll (Fail EINTR) s) = SP_poll
   \<and> (e \<noteq> EINTR \<longrightarrow>
        status (main_poll (Fail e) s) = Exited EXIT_FAILURE
        \<and> stderr (main_poll (Fail e) s) = stderr s @ [(''poll'', e)]
        \<and> stdout (main_poll (Fail e) s) = stdout s)
   \<and> (0 < n \<longrightarrow>
        sp_pc (main_poll (Ret n) s) = SP_read
        \<and> status (main_poll (Ret n) s) = status s
        \<and> stdout (main_poll (Ret n) s) = stdout s
        \<and> stderr (main_poll (Ret n) s) = stderr s)
   \<and> main_read r s = (handle_signal_sp (read_fd s) r s)\<lparr>sp_pc := SP_poll\<rparr>
   \<and> (status s = Running \<and> sp_pc s = SP_poll \<and> enabled_sp (Sp_sys r) s \<longrightarrow>
        step_sp (Sp_sys r) s = main_poll r s
        \<and> (r = Ret 0 \<or> r = Ret 1 \<or> r = Fail (errno (main_poll r s))))
   \<and> (status s = Running \<and> sp_pc s = SP_read \<and> enabled_sp (Sp_sys r) s \<longrightarrow>
        step_sp (Sp_sys r) s = main_read r s)"
proof -
  have a: "status s = Running \<and> sp_pc s = SP_poll \<and> enabled_sp (Sp_sys r) s \<longrightarrow>
        step_sp (Sp_sys r) s = main_poll r s
        \<and> (r = Ret 0 \<or> r = Ret 1 \<or> r = Fail (errno (main_poll r s)))"
  proof (cases r)
    case (Ret n)
    then show ?thesis
      by (auto simp: step_sp_def exec_sp_def enabled_sp_def poll_possible_sp_def split: if_splits)
  next
    case (Fail e)
    then show ?thesis
      by (cases "e = EINTR") (simp_all add: step_sp_def exec_sp_def main_poll_eintr main_poll_err)
  qed
  have b: "status s = Running \<and> sp_pc s = SP_read \<and> enabled_sp (Sp_sys r) s \<longrightarrow>
        step_sp (Sp_sys r) s = main_read r s"
    by (simp add: step_sp_def exec_sp_def)
  from a b show ?thesis
    by (simp add: main_poll_timeout main_poll_eintr main_poll_err main_poll_ready main_read_def)
qed

theorem poll_outcomes_sp_witness:
  "(5 :: int) \<noteq> EINTR \<and> (0 :: int) < 1
   \<and> status (run_sp sp_setup_ok sp_init) = Running
   \<and> sp_pc (run_sp sp_setup_ok sp_init) = SP_poll
   \<and> enabled_sp (Sp_sys (Fail 5)) (run_sp sp_setup_ok sp_init)
   \<and> status (step_sp (Sp_sys (Fail 5)) (run_sp sp_setup_ok sp_init)) = Exited EXIT_FAILURE
   \<and> stderr (step_sp (Sp_sys (Fail 5)) (run_sp sp_setup_ok sp_init)) = [(''poll'', 5)]
   \<and> sp_pc (main_poll (Ret 1) (run_sp sp_setup_ok sp_init)) = SP_read
   \<and> status (run_sp (sp_setup_ok @ [Sp_sigint (Ret 1), Sp_sys (Ret 1)]) sp_init) = Running
   \<and> sp_pc (run_sp (sp_setup_ok @ [Sp_sigint (Ret 1), Sp_sys (Ret 1)]) sp_init) = SP_read
   \<and> enabled_sp (Sp_sys (Ret 1)) (run_sp (sp_setup_ok @ [Sp_sigint (Ret 1), Sp_sys (Ret 1)]) sp_init)
   \<and> step_sp (Sp_sys (Ret 1)) (run_sp (sp_setup_ok @ [Sp_sigint (Ret 1), Sp_sys (Ret 1)]) sp_init)
       = main_read (Ret 1) (run_sp (sp_setup_ok @ [Sp_sigint (Ret 1), Sp_sys (Ret 1)]) sp_init)"
proof -
  let ?s = "run_sp sp_setup_ok sp_init"
  let ?t = "run_sp (sp_setup_ok @ [Sp_sigint (Ret 1), Sp_sys (Ret 1)]) sp_init"
  have h1: "(5 :: int) \<noteq> EINTR" "(0 :: int) < 1" by (simp_all add: EINTR_def)
  have h2: "status ?s = Running \<and> sp_pc ?s = SP_poll \<and> enabled_sp (Sp_sys (Fail 5)) ?s"
    by code_simp
  have h3: "status ?t = Running \<and> sp_pc ?t = SP_read \<and> enabled_sp (Sp_sys (Ret 1)) ?t"
    by code_simp
  have h4: "stderr ?s = []" by code_simp
  from poll_outcomes_sp[of ?s 5 1 "Fail 5"] poll_outcomes_sp[of ?t 5 1 "Ret 1"] h1 h2 h3 h4
  show ?thesis by simp
qed



text \<open>
  C5. The consume step of the signalfd program issues one \<^verbatim>\<open>read\<close> of
  \<^verbatim>\<open>sizeof(struct signalfd_siginfo)\<close> bytes. Whatever the \<^verbatim>\<open>read\<close> returns other than that
  size, the process ends with status 1 after the diagnostic \<^verbatim>\<open>read\<close>, and nothing is
  printed to standard output. When it returns that size, the number in \<^verbatim>\<open>ssi_signo\<close> and
  the name \<^verbatim>\<open>strsignal\<close> gives it are printed in one string that ends with its only newline
  (a name holds none). In \<^verbatim>\<open>main\<close> the record read is that of the pending \<^verbatim>\<open>SIGINT\<close>.
\<close>

theorem handle_signal_sf_reads_one_record:
  "syslog (handle_signal_sf f fd r info s) = syslog s @ [(Sys_read fd sizeof_siginfo, ret_of r)]
   \<and> (ret_of r \<noteq> int sizeof_siginfo \<and> - (2 ^ 63) \<le> ret_of r \<and> ret_of r < 2 ^ 63 \<longrightarrow>
        status (handle_signal_sf f fd r info s) = Exited 1
        \<and> stderr (handle_signal_sf f fd r info s)
            = stderr s @ [(''read'', errno (handle_signal_sf f fd r info s))]
        \<and> stdout (handle_signal_sf f fd r info s) = stdout s)
   \<and> (ret_of r = int sizeof_siginfo \<longrightarrow>
        status (handle_signal_sf f fd r info s) = status s
        \<and> stderr (handle_signal_sf f fd r info s) = stderr s
        \<and> stdout (handle_signal_sf f fd r info s)
            = stdout s @ [''Received signal '' @ show_int (sint (ssi_signo info)) @ '' (''
                           @ f (sint (ssi_signo info)) @ '')'' @ [newline]])
   \<and> (newline \<notin> set (f (sint (ssi_signo info))) \<longrightarrow>
        newline \<notin> set (''Received signal '' @ show_int (sint (ssi_signo info)) @ '' (''
                          @ f (sint (ssi_signo info)) @ '')''))
   \<and> (status s = Running \<and> sf_pc s = SF_read \<and> enabled_sf (Sf_sys r) s \<longrightarrow>
        step_sf f (Sf_sys r) s
          = (handle_signal_sf f (signal_fd s) r (pending_info s) s)\<lparr>sf_pc := SF_poll\<rparr>
        \<and> sint (ssi_signo (pending_info s)) = SIGINT)"
proof -
  let ?h = "handle_signal_sf f fd r info s"
  have log: "syslog ?h = syslog s @ [(Sys_read fd sizeof_siginfo, ret_of r)]"
    by (cases r)
       (simp_all add: handle_signal_sf_def sys_read_signalfd_def leave_def ret_of_def exit_def
          perror_def printf_def Let_def)
  have bad: "ret_of r \<noteq> int sizeof_siginfo \<and> - (2 ^ 63) \<le> ret_of r \<and> ret_of r < 2 ^ 63 \<longrightarrow>
        status ?h = Exited 1 \<and> stderr ?h = stderr s @ [(''read'', errno ?h)]
        \<and> stdout ?h = stdout s"
  proof (intro impI, elim conjE)
    assume ne: "ret_of r \<noteq> int sizeof_siginfo"
      and lo: "- (2 ^ 63) \<le> ret_of r" and hi: "ret_of r < 2 ^ 63"
    from ne ssize_eq_sizeof[OF lo hi]
    have w: "(word_of_int (ret_of r) :: 64 word) \<noteq> 128" by (simp add: sizeof_siginfo_def)
    then show "status ?h = Exited 1 \<and> stderr ?h = stderr s @ [(''read'', errno ?h)]
        \<and> stdout ?h = stdout s"
      by (cases r)
         (simp_all add: handle_signal_sf_def sys_read_signalfd_def leave_def ret_of_def
            exit_def perror_def sizeof_siginfo_def)
  qed
  have good: "ret_of r = int sizeof_siginfo \<longrightarrow>
        status ?h = status s \<and> stderr ?h = stderr s
        \<and> stdout ?h = stdout s @ [''Received signal '' @ show_int (sint (ssi_signo info)) @ '' (''
                           @ f (sint (ssi_signo info)) @ '')'' @ [newline]]"
    by (cases r)
       (simp_all add: handle_signal_sf_def sys_read_signalfd_def leave_def ret_of_def
          printf_def sizeof_siginfo_def Let_def)
  have line: "newline \<notin> set (f (sint (ssi_signo info))) \<longrightarrow>
        newline \<notin> set (''Received signal '' @ show_int (sint (ssi_signo info)) @ '' (''
                          @ f (sint (ssi_signo info)) @ '')'')"
    using newline_not_in_show_int[of "sint (ssi_signo info)"] by (simp add: newline_def)
  have mach: "status s = Running \<and> sf_pc s = SF_read \<and> enabled_sf (Sf_sys r) s \<longrightarrow>
        step_sf f (Sf_sys r) s
          = (handle_signal_sf f (signal_fd s) r (pending_info s) s)\<lparr>sf_pc := SF_poll\<rparr>
        \<and> sint (ssi_signo (pending_info s)) = SIGINT"
    by (simp add: step_sf_def exec_sf_def main_read_sf_def pending_info_def SIGINT_def)
  from log bad good line mach show ?thesis by blast
qed

theorem handle_signal_sf_reads_one_record_witness:
  "ret_of (Ret 128) = int sizeof_siginfo
   \<and> ret_of (Fail 11) \<noteq> int sizeof_siginfo \<and> - (2 ^ 63) \<le> ret_of (Fail 11) \<and> ret_of (Fail 11) < 2 ^ 63
   \<and> newline \<notin> set (strsignal_glibc (sint (ssi_signo \<lparr>ssi_signo = 15\<rparr>)))
   \<and> status (run_sf strsignal_glibc (sf_setup_ok @ [Sf_sigint, Sf_sys (Ret 1)]) sf_init) = Running
   \<and> sf_pc (run_sf strsignal_glibc (sf_setup_ok @ [Sf_sigint, Sf_sys (Ret 1)]) sf_init) = SF_read
   \<and> enabled_sf (Sf_sys (Ret 128))
        (run_sf strsignal_glibc (sf_setup_ok @ [Sf_sigint, Sf_sys (Ret 1)]) sf_init)
   \<and> stdout (handle_signal_sf strsignal_glibc 3 (Ret 128) \<lparr>ssi_signo = 15\<rparr>
        (run_sf strsignal_glibc (sf_setup_ok @ [Sf_sigint, Sf_sys (Ret 1)]) sf_init))
       = [''Received signal 15 (Terminated)'' @ [newline]]
   \<and> stdout (step_sf strsignal_glibc (Sf_sys (Ret 128))
        (run_sf strsignal_glibc (sf_setup_ok @ [Sf_sigint, Sf_sys (Ret 1)]) sf_init))
       = [''Received signal 2 (Interrupt)'' @ [newline]]
   \<and> status (handle_signal_sf strsignal_glibc 3 (Fail 11) \<lparr>ssi_signo = 15\<rparr>
        (run_sf strsignal_glibc (sf_setup_ok @ [Sf_sigint, Sf_sys (Ret 1)]) sf_init))
       = Exited 1
   \<and> stderr (handle_signal_sf strsignal_glibc 3 (Fail 11) \<lparr>ssi_signo = 15\<rparr>
        (run_sf strsignal_glibc (sf_setup_ok @ [Sf_sigint, Sf_sys (Ret 1)]) sf_init))
       = [(''read'', 11)]"
proof -
  let ?s = "run_sf strsignal_glibc (sf_setup_ok @ [Sf_sigint, Sf_sys (Ret 1)]) sf_init"
  let ?i = "\<lparr>ssi_signo = 15\<rparr>"
  have h1: "ret_of (Ret 128) = int sizeof_siginfo"
    "ret_of (Fail 11) \<noteq> int sizeof_siginfo \<and> - (2 ^ 63) \<le> ret_of (Fail 11)
       \<and> ret_of (Fail 11) < 2 ^ 63"
    by (simp_all add: ret_of_def sizeof_siginfo_def)
  have h2: "newline \<notin> set (strsignal_glibc (sint (ssi_signo ?i)))"
    by (simp add: strsignal_glibc_def newline_def)
  have h3: "status ?s = Running \<and> sf_pc ?s = SF_read \<and> enabled_sf (Sf_sys (Ret 128)) ?s"
    by code_simp
  have h4: "stdout ?s = [] \<and> stderr ?s = [] \<and> signal_fd ?s = 3" by code_simp
  have h5: "errno (handle_signal_sf strsignal_glibc 3 (Fail 11) ?i ?s) = 11" by code_simp
  have h6: "show_int (sint (ssi_signo ?i)) = ''15'' \<and> strsignal_glibc (sint (ssi_signo ?i)) = ''Terminated''"
    by (simp add: show_int_def strsignal_glibc_def)
  have h7: "stdout (handle_signal_sf strsignal_glibc 3 (Ret 128) (pending_info ?s) ?s)
      = [''Received signal 2 (Interrupt)'' @ [newline]]"
    by code_simp
  from handle_signal_sf_reads_one_record[of strsignal_glibc 3 "Ret 128" ?i ?s]
       handle_signal_sf_reads_one_record[of strsignal_glibc 3 "Fail 11" ?i ?s]
       h1 h2 h3 h4 h5 h6 h7
  show ?thesis by simp
qed

text \<open>
  C6. The consume step of the self-pipe program issues one \<^verbatim>\<open>read\<close> of one byte on the
  descriptor it is given, which in \<^verbatim>\<open>main\<close> is the read end of the pipe. Whatever the
  \<^verbatim>\<open>read\<close> returns other than 1, the process ends with \<^verbatim>\<open>EXIT_FAILURE\<close> after the
  diagnostic \<^verbatim>\<open>read\<close>, and nothing is printed to standard output. When it returns 1, one
  byte has left the pipe and the line \<^verbatim>\<open>Received signal\<close> is printed, which holds no digit.
\<close>

theorem handle_signal_sp_reads_one_byte:
  "syslog (handle_signal_sp fd r s) = syslog s @ [(Sys_read fd 1, ret_of r)]
   \<and> (ret_of r \<noteq> 1 \<longrightarrow>
        status (handle_signal_sp fd r s) = Exited EXIT_FAILURE
        \<and> stderr (handle_signal_sp fd r s) = stderr s @ [(''read'', errno (handle_signal_sp fd r s))]
        \<and> stdout (handle_signal_sp fd r s) = stdout s)
   \<and> (ret_of r = 1 \<longrightarrow>
        status (handle_signal_sp fd r s) = status s
        \<and> stderr (handle_signal_sp fd r s) = stderr s
        \<and> stdout (handle_signal_sp fd r s) = stdout s @ [''Received signal'' @ [newline]]
        \<and> pipe_buf (handle_signal_sp fd r s) = drop 1 (pipe_buf s))
   \<and> set (''Received signal'' @ [newline]) \<inter> set ''0123456789'' = {}
   \<and> (sp_pc (run_sp evs sp_init) = SP_read \<longrightarrow>
        is_obj (run_sp evs sp_init) (read_fd (run_sp evs sp_init)) PipeRd
        \<and> main_read r (run_sp evs sp_init)
            = (handle_signal_sp (read_fd (run_sp evs sp_init)) r (run_sp evs sp_init))\<lparr>sp_pc := SP_poll\<rparr>)"
proof -
  have log: "syslog (handle_signal_sp fd r s) = syslog s @ [(Sys_read fd 1, ret_of r)]"
    by (cases r)
       (simp_all add: handle_signal_sp_def sys_read_pipe_def leave_def ret_of_def handle_err_def
          exit_def perror_def printf_def)
  have bad: "ret_of r \<noteq> 1 \<longrightarrow>
        status (handle_signal_sp fd r s) = Exited EXIT_FAILURE
        \<and> stderr (handle_signal_sp fd r s) = stderr s @ [(''read'', errno (handle_signal_sp fd r s))]
        \<and> stdout (handle_signal_sp fd r s) = stdout s"
    by (cases r)
       (simp_all add: handle_signal_sp_def sys_read_pipe_def leave_def ret_of_def handle_err_def
          exit_def perror_def printf_def)
  have good: "ret_of r = 1 \<longrightarrow>
        status (handle_signal_sp fd r s) = status s
        \<and> stderr (handle_signal_sp fd r s) = stderr s
        \<and> stdout (handle_signal_sp fd r s) = stdout s @ [''Received signal'' @ [newline]]
        \<and> pipe_buf (handle_signal_sp fd r s) = drop 1 (pipe_buf s)"
    by (cases r)
       (simp_all add: handle_signal_sp_def sys_read_pipe_def leave_def ret_of_def handle_err_def
          exit_def perror_def printf_def)
  have nodigit: "set (''Received signal'' @ [newline]) \<inter> set ''0123456789'' = {}"
    by (simp add: newline_def)
  have rd: "sp_pc (run_sp evs sp_init) = SP_read \<longrightarrow>
        is_obj (run_sp evs sp_init) (read_fd (run_sp evs sp_init)) PipeRd"
    using sp_reachable[of evs] by (auto simp: sp_inv_def)
  from log bad good nodigit rd show ?thesis by (simp add: main_read_def)
qed

theorem handle_signal_sp_reads_one_byte_witness:
  "sp_pc (run_sp (sp_setup_ok @ [Sp_sigint (Ret 1), Sp_sys (Ret 1)]) sp_init) = SP_read
   \<and> ret_of (Ret 1) = 1 \<and> ret_of (Fail 5) \<noteq> 1
   \<and> is_obj (run_sp (sp_setup_ok @ [Sp_sigint (Ret 1), Sp_sys (Ret 1)]) sp_init) 3 PipeRd
   \<and> stdout (handle_signal_sp 3 (Ret 1)
        (run_sp (sp_setup_ok @ [Sp_sigint (Ret 1), Sp_sys (Ret 1)]) sp_init))
       = [''Received signal'' @ [newline]]
   \<and> status (handle_signal_sp 3 (Fail 5)
        (run_sp (sp_setup_ok @ [Sp_sigint (Ret 1), Sp_sys (Ret 1)]) sp_init))
       = Exited EXIT_FAILURE
   \<and> stderr (handle_signal_sp 3 (Fail 5)
        (run_sp (sp_setup_ok @ [Sp_sigint (Ret 1), Sp_sys (Ret 1)]) sp_init))
       = [(''read'', 5)]"
proof -
  let ?s = "run_sp (sp_setup_ok @ [Sp_sigint (Ret 1), Sp_sys (Ret 1)]) sp_init"
  have pc: "sp_pc ?s = SP_read" by code_simp
  have fd: "read_fd ?s = 3" by code_simp
  have out: "stdout ?s = []" by code_simp
  have err: "stderr ?s = []" by code_simp
  have e5: "errno (handle_signal_sp 3 (Fail 5) ?s) = 5" by code_simp
  have r1: "ret_of (Ret 1) = 1" and r5: "ret_of (Fail 5) \<noteq> 1" by (simp_all add: ret_of_def)
  from handle_signal_sp_reads_one_byte[of 3 "Ret 1" ?s "sp_setup_ok @ [Sp_sigint (Ret 1), Sp_sys (Ret 1)]"]
       handle_signal_sp_reads_one_byte[of 3 "Fail 5" ?s "sp_setup_ok @ [Sp_sigint (Ret 1), Sp_sys (Ret 1)]"]
       pc fd out err e5 r1 r5
  show ?thesis by simp
qed
















text \<open>
  C9. In the signalfd program every \<^verbatim>\<open>poll\<close> whose result is not positive, a timeout or a
  failure with any error number (\<^verbatim>\<open>EINTR\<close> among them), ends the process with status 0
  and prints nothing to standard output or standard error: two such answers give the same
  status and the same output, and the process that was running had printed no diagnostic.
\<close>

theorem signalfd_wait_not_ready_is_silent:
  "(ret_of r \<le> 0 \<longrightarrow>
      status (main_poll_sf r s) = Exited 0
      \<and> stdout (main_poll_sf r s) = stdout s
      \<and> stderr (main_poll_sf r s) = stderr s)
   \<and> (status s = Running \<and> sf_pc s = SF_poll \<and> enabled_sf (Sf_sys r) s
        \<and> enabled_sf (Sf_sys r') s \<and> ret_of r \<le> 0 \<and> ret_of r' \<le> 0 \<longrightarrow>
      step_sf f (Sf_sys r) s = main_poll_sf r s
      \<and> status (step_sf f (Sf_sys r) s) = status (step_sf f (Sf_sys r') s)
      \<and> stdout (step_sf f (Sf_sys r) s) = stdout (step_sf f (Sf_sys r') s)
      \<and> stderr (step_sf f (Sf_sys r) s) = stderr (step_sf f (Sf_sys r') s)
      \<and> run_sf f evs (step_sf f (Sf_sys r) s) = step_sf f (Sf_sys r) s)
   \<and> (status (run_sf f evs sf_init) = Running \<longrightarrow> stderr (run_sf f evs sf_init) = [])"
proof -
  have fn: "\<And>r. ret_of r \<le> 0 \<longrightarrow>
      status (main_poll_sf r s) = Exited 0
      \<and> stdout (main_poll_sf r s) = stdout s
      \<and> stderr (main_poll_sf r s) = stderr s"
  proof -
    fix r show "ret_of r \<le> 0 \<longrightarrow>
      status (main_poll_sf r s) = Exited 0
      \<and> stdout (main_poll_sf r s) = stdout s
      \<and> stderr (main_poll_sf r s) = stderr s"
      by (cases r) (simp_all add: ret_of_def main_poll_sf_timeout main_poll_sf_err)
  qed
  have st: "\<And>r. status s = Running \<and> sf_pc s = SF_poll \<and> enabled_sf (Sf_sys r) s \<longrightarrow>
      step_sf f (Sf_sys r) s = main_poll_sf r s"
    by (simp add: step_sf_def exec_sf_def)
  have inv: "status (run_sf f evs sf_init) = Running \<longrightarrow> stderr (run_sf f evs sf_init) = []"
    using sf_reachable[of f evs] by (simp add: sf_inv_def)
  have m: "status s = Running \<and> sf_pc s = SF_poll \<and> enabled_sf (Sf_sys r) s
        \<and> enabled_sf (Sf_sys r') s \<and> ret_of r \<le> 0 \<and> ret_of r' \<le> 0 \<longrightarrow>
      step_sf f (Sf_sys r) s = main_poll_sf r s
      \<and> status (step_sf f (Sf_sys r) s) = status (step_sf f (Sf_sys r') s)
      \<and> stdout (step_sf f (Sf_sys r) s) = stdout (step_sf f (Sf_sys r') s)
      \<and> stderr (step_sf f (Sf_sys r) s) = stderr (step_sf f (Sf_sys r') s)
      \<and> run_sf f evs (step_sf f (Sf_sys r) s) = step_sf f (Sf_sys r) s"
    using fn[of r] fn[of r'] st[of r] st[of r'] by (simp add: run_sf_ended)
  from fn[of r] m inv show ?thesis by blast
qed

theorem signalfd_wait_not_ready_is_silent_witness:
  "status (run_sf strsignal_glibc sf_setup_ok sf_init) = Running
   \<and> sf_pc (run_sf strsignal_glibc sf_setup_ok sf_init) = SF_poll
   \<and> enabled_sf (Sf_sys (Ret 0)) (run_sf strsignal_glibc sf_setup_ok sf_init)
   \<and> enabled_sf (Sf_sys (Fail EINTR)) (run_sf strsignal_glibc sf_setup_ok sf_init)
   \<and> ret_of (Ret 0) \<le> 0 \<and> ret_of (Fail EINTR) \<le> 0
   \<and> status (step_sf strsignal_glibc (Sf_sys (Ret 0)) (run_sf strsignal_glibc sf_setup_ok sf_init))
       = Exited 0
   \<and> status (step_sf strsignal_glibc (Sf_sys (Fail EINTR)) (run_sf strsignal_glibc sf_setup_ok sf_init))
       = Exited 0
   \<and> stdout (step_sf strsignal_glibc (Sf_sys (Fail EINTR)) (run_sf strsignal_glibc sf_setup_ok sf_init))
       = []
   \<and> stderr (step_sf strsignal_glibc (Sf_sys (Fail EINTR)) (run_sf strsignal_glibc sf_setup_ok sf_init))
       = []"
proof -
  let ?s = "run_sf strsignal_glibc sf_setup_ok sf_init"
  have h: "status ?s = Running \<and> sf_pc ?s = SF_poll \<and> enabled_sf (Sf_sys (Ret 0)) ?s
      \<and> enabled_sf (Sf_sys (Fail EINTR)) ?s \<and> stdout ?s = []"
    by code_simp
  have hr: "ret_of (Ret 0) \<le> 0" "ret_of (Fail EINTR) \<le> 0" by (simp_all add: ret_of_def)
  from signalfd_wait_not_ready_is_silent[of "Fail EINTR" ?s "Ret 0" strsignal_glibc sf_setup_ok]
       signalfd_wait_not_ready_is_silent[of "Ret 0" ?s "Ret 0" strsignal_glibc sf_setup_ok]
       h hr
  show ?thesis by simp
qed

lemma pipefds_stable_step:
  assumes "sp_pc s \<noteq> SP_pipe"
  shows "sp_pc (step_sp ev s) \<noteq> SP_pipe \<and> pipefds (step_sp ev s) = pipefds s"
  using assms
  by (cases ev s rule: step_sp_cases) (auto simp: sp_exec)

lemma pipefds_stable_run:
  "sp_pc s \<noteq> SP_pipe \<Longrightarrow>
   sp_pc (run_sp evs s) \<noteq> SP_pipe \<and> pipefds (run_sp evs s) = pipefds s"
proof (induction evs arbitrary: s)
  case Nil
  then show ?case by simp
next
  case (Cons ev evs)
  from pipefds_stable_step[OF Cons.prems, of ev]
  have a: "sp_pc (step_sp ev s) \<noteq> SP_pipe" and b: "pipefds (step_sp ev s) = pipefds s"
    by simp_all
  from Cons.IH[OF a] b show ?case by simp
qed

lemma handler_installed_after_setup:
  assumes "sp_inv s" "sp_log_inv s" "sigint s = Sig_handler"
  shows "(\<exists>rest. syslog s = sp_setup_calls (pipefds s) @ [(Sys_signal SIGINT, 0)] @ rest)
     \<and> is_obj s (fst (pipefds s)) PipeRd \<and> is_obj s (snd (pipefds s)) PipeWr"
proof -
  from assms(1,3) have pc: "sp_pc s = SP_poll \<or> sp_pc s = SP_read" by (simp add: sp_inv_def)
  then have np: "sp_pc s \<noteq> SP_pipe" by auto
  with assms(1) have fds: "is_obj s (fst (pipefds s)) PipeRd \<and> is_obj s (snd (pipefds s)) PipeWr"
    by (simp add: sp_inv_def)
  from assms(2,3) pc
  have "\<exists>rest. syslog s = sp_setup_calls (pipefds s) @ [(Sys_signal SIGINT, 0)] @ rest"
    by (simp add: sp_log_inv_def)
  with fds show ?thesis by simp
qed

lemma handler_run:
  assumes "status s = Running" "sigint s = Sig_handler" "enabled_sp (Sp_sigint wr) s"
  shows "step_sp (Sp_sigint wr) s = signal_action SIGINT wr s
     \<and> syslog (step_sp (Sp_sigint wr) s)
         = syslog s @ [(Sys_write (snd (pipefds s)) [0], ret_of wr)]"
proof -
  from assms have st: "step_sp (Sp_sigint wr) s = signal_action SIGINT wr s"
    by (simp add: step_sp_def exec_sp_def deliver_sigint_def)
  have "syslog (signal_action SIGINT wr s)
      = syslog s @ [(Sys_write (snd (pipefds s)) [0], ret_of wr)]"
    by (cases wr)
       (simp_all add: signal_action_def sys_write_pipe_def leave_def ret_of_def Let_def)
  with st show ?thesis by simp
qed

text \<open>
  C10. In every state the self-pipe program reaches: when \<^verbatim>\<open>signal_action\<close> is installed,
  the log of system calls begins with the successful \<^verbatim>\<open>pipe\<close>, the two \<^verbatim>\<open>fcntl\<close> calls on
  its descriptors and the \<^verbatim>\<open>signal\<close> call, in this order, and \<^verbatim>\<open>pipefds\<close> holds the read
  end and the write end of the pipe. \<^verbatim>\<open>pipefds\<close> is \<open>{0, 0}\<close> until \<^verbatim>\<open>pipe\<close> has succeeded
  (and until then no handler is installed), and once the program is past \<^verbatim>\<open>pipe\<close> no
  sequence of events changes it. So a handler that runs writes to the descriptor in
  \<^verbatim>\<open>pipefds[1]\<close>, which is the write end of the pipe made at setup.
\<close>

theorem handler_writes_to_pipe_of_setup:
  assumes "s = run_sp evs sp_init"
  shows "(sigint s = Sig_handler \<longrightarrow>
      (\<exists>rest. syslog s = sp_setup_calls (pipefds s) @ [(Sys_signal SIGINT, 0)] @ rest)
      \<and> is_obj s (fst (pipefds s)) PipeRd
      \<and> is_obj s (snd (pipefds s)) PipeWr)
   \<and> (sp_pc s = SP_pipe \<longrightarrow> pipefds s = (0, 0) \<and> sigint s = Sig_default)
   \<and> (sp_pc s \<noteq> SP_pipe \<longrightarrow>
      sp_pc (run_sp evs' s) \<noteq> SP_pipe \<and> pipefds (run_sp evs' s) = pipefds s)
   \<and> (status s = Running \<and> sigint s = Sig_handler \<and> enabled_sp (Sp_sigint wr) s \<longrightarrow>
      step_sp (Sp_sigint wr) s = signal_action SIGINT wr s
      \<and> syslog (step_sp (Sp_sigint wr) s)
          = syslog s @ [(Sys_write (snd (pipefds s)) [0], ret_of wr)]
      \<and> is_obj s (snd (pipefds s)) PipeWr)"
proof -
  from assms sp_reachable[of evs] have inv: "sp_inv s" "sp_log_inv s" by simp_all
  have a: "sigint s = Sig_handler \<longrightarrow>
      (\<exists>rest. syslog s = sp_setup_calls (pipefds s) @ [(Sys_signal SIGINT, 0)] @ rest)
      \<and> is_obj s (fst (pipefds s)) PipeRd
      \<and> is_obj s (snd (pipefds s)) PipeWr"
    using handler_installed_after_setup[OF inv] by blast
  have b: "sp_pc s = SP_pipe \<longrightarrow> pipefds s = (0, 0) \<and> sigint s = Sig_default"
    using inv(1) by (cases "sigint s") (auto simp: sp_inv_def)
  have c: "sp_pc s \<noteq> SP_pipe \<longrightarrow>
      sp_pc (run_sp evs' s) \<noteq> SP_pipe \<and> pipefds (run_sp evs' s) = pipefds s"
    using pipefds_stable_run[of s evs'] by blast
  have d: "status s = Running \<and> sigint s = Sig_handler \<and> enabled_sp (Sp_sigint wr) s \<longrightarrow>
      step_sp (Sp_sigint wr) s = signal_action SIGINT wr s
      \<and> syslog (step_sp (Sp_sigint wr) s)
          = syslog s @ [(Sys_write (snd (pipefds s)) [0], ret_of wr)]
      \<and> is_obj s (snd (pipefds s)) PipeWr"
    using handler_run[of s wr] a by blast
  from a b c d show ?thesis by blast
qed

theorem handler_writes_to_pipe_of_setup_witness:
  "sigint (run_sp sp_setup_ok sp_init) = Sig_handler
   \<and> status (run_sp sp_setup_ok sp_init) = Running
   \<and> sp_pc (run_sp sp_setup_ok sp_init) \<noteq> SP_pipe
   \<and> enabled_sp (Sp_sigint (Ret 1)) (run_sp sp_setup_ok sp_init)
   \<and> pipefds (run_sp sp_setup_ok sp_init) = (3, 4)
   \<and> is_obj (run_sp sp_setup_ok sp_init) 4 PipeWr
   \<and> syslog (step_sp (Sp_sigint (Ret 1)) (run_sp sp_setup_ok sp_init))
       = syslog (run_sp sp_setup_ok sp_init) @ [(Sys_write 4 [0], 1)]
   \<and> pipefds (run_sp [Sp_sigint (Ret 1), Sp_sys (Ret 1), Sp_sys (Ret 1)]
        (run_sp sp_setup_ok sp_init)) = (3, 4)
   \<and> sp_pc (run_sp [Sp_sys (Ret 0)] sp_init) = SP_pipe
   \<and> pipefds (run_sp [Sp_sys (Ret 0)] sp_init) = (0, 0)
   \<and> sigint (run_sp [Sp_sys (Ret 0)] sp_init) = Sig_default"
proof -
  let ?s = "run_sp sp_setup_ok sp_init"
  let ?evs = "[Sp_sigint (Ret 1), Sp_sys (Ret 1), Sp_sys (Ret 1)]"
  let ?i = "run_sp [Sp_sys (Ret 0)] sp_init"
  have h: "sigint ?s = Sig_handler \<and> status ?s = Running \<and> sp_pc ?s \<noteq> SP_pipe
      \<and> enabled_sp (Sp_sigint (Ret 1)) ?s"
    by code_simp
  have p: "pipefds ?s = (3, 4)" by code_simp
  have i: "sp_pc ?i = SP_pipe" by code_simp
  have r: "ret_of (Ret 1) = 1" by (simp add: ret_of_def)
  note T = handler_writes_to_pipe_of_setup[of ?s sp_setup_ok ?evs "Ret 1", OF refl]
  note U = handler_writes_to_pipe_of_setup[of ?i "[Sp_sys (Ret 0)]" "[]" "Ret 1", OF refl]
  from T h have w: "is_obj ?s (snd (pipefds ?s)) PipeWr" by blast
  from T h have l: "syslog (step_sp (Sp_sigint (Ret 1)) ?s)
      = syslog ?s @ [(Sys_write (snd (pipefds ?s)) [0], ret_of (Ret 1))]"
    by blast
  from T h have q: "pipefds (run_sp ?evs ?s) = pipefds ?s" by blast
  from U i have z: "pipefds ?i = (0, 0) \<and> sigint ?i = Sig_default" by blast
  from w p have w': "is_obj ?s 4 PipeWr" by simp
  from l p r have l': "syslog (step_sp (Sp_sigint (Ret 1)) ?s)
      = syslog ?s @ [(Sys_write 4 [0], 1)]"
    by simp
  from q p have q': "pipefds (run_sp ?evs ?s) = (3, 4)" by (simp only:)
  from h p w' l' q' i z show ?thesis by blast
qed

end
